theory Spec2Isabelle
  imports
    Complex_Main
    "HOL-Library.Word"
    "HOL-Library.Char_ord"
    "HOL-Library.List_Lexorder"
    "HOL-Library.AList"
begin

section \<open>Shared data\<close>

text \<open>
  Go's \<open>int64\<close> is a 64-bit word read as two's complement (\<open>sint\<close>); \<open>+\<close> wraps.
  A Go \<open>string\<close> is a byte sequence, here a \<open>char list\<close> (a \<open>char\<close> is one byte), so
  the conversion \<open>[]byte(s)\<close> is the identity.
\<close>

type_synonym int64 = "64 word"

text \<open>
  Go's \<open>error\<close>. Every failure built in the two source files comes from \<open>errors.New\<close> or
  \<open>fmt.Errorf\<close>, both of which wrap nothing but a message: \<open>errorString\<close>. \<open>Miss\<close> is the
  failure of a cache lookup (packages ticker and orderbook: a snapshot or a miss).
\<close>

datatype error = errorString string | Miss

definition errors_New :: "string \<Rightarrow> error" where
  "errors_New s = errorString s"

subsection \<open>strconv.FormatInt in base 10\<close>

definition digit_char :: "nat \<Rightarrow> char" where
  "digit_char d = ''0123456789'' ! d"

function nat_dec :: "nat \<Rightarrow> string" where
  "nat_dec n = (if n < 10 then [digit_char n] else nat_dec (n div 10) @ [digit_char (n mod 10)])"
  by pat_completeness auto
termination
  by (relation "measure id") auto

declare nat_dec.simps [simp del]

definition FormatInt :: "int64 \<Rightarrow> string" where
  "FormatInt i = (if sint i < 0 then CHR ''-'' # nat_dec (nat (- sint i)) else nat_dec (nat (sint i)))"

subsection \<open>strings.ToUpper\<close>

text \<open>
  \<open>common.StringToUpper\<close> is \<open>strings.ToUpper\<close>; on ASCII text (exchange pair names) it
  maps the bytes \<open>a..z\<close> to \<open>A..Z\<close> and leaves every other byte alone.
\<close>

definition to_upper_byte :: "char \<Rightarrow> char" where
  "to_upper_byte c =
     (if CHR ''a'' \<le> c \<and> c \<le> CHR ''z'' then char_of (of_char c - (32::nat)) else c)"

definition StringToUpper :: "string \<Rightarrow> string" where
  "StringToUpper s = map to_upper_byte s"

section \<open>net/url: Values, QueryEscape, Encode\<close>

text \<open>
  \<open>url.Values\<close> is \<open>map[string][]string\<close>. It is kept as an association list whose keys
  are looked up with \<open>map_of\<close>; the position of a key in the list stands for the order in
  which Go happens to iterate over the map, which \<open>Encode\<close> must not depend on.
\<close>

type_synonym Values = "(string \<times> string list) list"

definition Values_Get_all :: "Values \<Rightarrow> string \<Rightarrow> string list" where
  "Values_Get_all v k = (case map_of v k of None \<Rightarrow> [] | Some vs \<Rightarrow> vs)"

definition Values_Set :: "Values \<Rightarrow> string \<Rightarrow> string \<Rightarrow> Values" where
  "Values_Set v k x = AList.update k [x] v"

definition Values_Add :: "Values \<Rightarrow> string \<Rightarrow> string \<Rightarrow> Values" where
  "Values_Add v k x = AList.update k (Values_Get_all v k @ [x]) v"

definition is_alnum :: "char \<Rightarrow> bool" where
  "is_alnum c \<longleftrightarrow>
     (CHR ''a'' \<le> c \<and> c \<le> CHR ''z'') \<or> (CHR ''A'' \<le> c \<and> c \<le> CHR ''Z'') \<or>
     (CHR ''0'' \<le> c \<and> c \<le> CHR ''9'')"

text \<open>\<open>shouldEscape(c, encodeQueryComponent)\<close>: only alphanumerics and \<open>- _ . ~\<close> pass.\<close>

definition shouldEscape :: "char \<Rightarrow> bool" where
  "shouldEscape c =
     (if is_alnum c then False
      else if c \<in> set ''-_.~'' then False
      else True)"

definition upperhex :: string where
  "upperhex = ''0123456789ABCDEF''"

definition escape_byte :: "char \<Rightarrow> string" where
  "escape_byte c =
     (if c = CHR '' '' then ''+''
      else if shouldEscape c
        then [CHR ''%'', upperhex ! (of_char c div 16), upperhex ! (of_char c mod 16)]
      else [c])"

definition QueryEscape :: "string \<Rightarrow> string" where
  "QueryEscape s = concat (map escape_byte s)"

text \<open>
  \<open>Values.Encode\<close>: the keys are collected and sorted (\<open>sort.Strings\<close>, bytewise), then
  every value of every key is written as \<open>key=value\<close>, with \<open>&\<close> before each one but
  the first.
\<close>

definition Values_keys :: "Values \<Rightarrow> string list" where
  "Values_keys v = sort (remdups (map fst v))"

definition write_pair :: "string \<Rightarrow> string \<Rightarrow> string \<Rightarrow> string" where
  "write_pair keyEscaped x buf =
     (if length buf > 0 then buf @ ''&'' else buf) @ keyEscaped @ ''='' @ QueryEscape x"

definition Encode :: "Values \<Rightarrow> string" where
  "Encode v =
     fold (\<lambda>k buf. fold (write_pair (QueryEscape k)) (Values_Get_all v k) buf) (Values_keys v) []"

section \<open>Package common: hashes and hex\<close>

datatype HashType = HashSHA1 | HashSHA256 | HashSHA512 | HashSHA512_384

text \<open>
  Modelled from the spec: \<open>common.HexEncodeToString\<close> is not among the sources; the spec
  has the signature as the lowercase hexadecimal rendering of the HMAC bytes, two digits
  per byte, high nibble first.
\<close>

definition hextable :: string where
  "hextable = ''0123456789abcdef''"

definition HexEncodeToString :: "string \<Rightarrow> string" where
  "HexEncodeToString bs =
     concat (map (\<lambda>b. [hextable ! (of_char b div 16), hextable ! (of_char b mod 16)]) bs)"

section \<open>The Liqui adapter (exchanges/liqui/liqui.go)\<close>

text \<open>
  Modelled from the spec: package nonce is not among the sources. The spec has the nonce
  as a 64-bit integer per session with a read, a store, an increment by one and its
  decimal rendering; a fresh session holds 0.
\<close>

type_synonym Nonce = int64

definition Nonce_Get :: "Nonce \<Rightarrow> int64" where
  "Nonce_Get n = n"

definition Nonce_Set :: "Nonce \<Rightarrow> int64 \<Rightarrow> Nonce" where
  "Nonce_Set n v = v"

definition Nonce_Inc :: "Nonce \<Rightarrow> Nonce" where
  "Nonce_Inc n = n + 1"

definition Nonce_String :: "Nonce \<Rightarrow> string" where
  "Nonce_String n = FormatInt n"

text \<open>
  The entries of \<open>Info.Pairs\<close> (\<open>map[string]...\<close>) in the order a \<open>range\<close> loop visits
  them. Of a pair's record only \<open>Hidden\<close> is read by the code under study.
\<close>

record PairInfo =
  Hidden :: int

record Info =
  Pairs :: "(string \<times> PairInfo) list"

text \<open>
  The fields of \<open>exchange.Base\<close> that the code reads. Both adapters embed it; \<open>Liqui\<close>
  adds \<open>Info\<close>, \<open>Poloniex\<close> reads nothing of its own.
\<close>

record exchange_Base =
  Name :: string
  Verbose :: bool
  AuthenticatedAPISupport :: bool
  APIKey :: string
  APISecret :: string
  APIUrlSecondary :: string
  Nonce :: Nonce

record Liqui = exchange_Base +
  Info :: Info

type_synonym Poloniex = exchange_Base

text \<open>One call of the transport, \<open>SendPayload\<close>, with the arguments it is given.\<close>

record Request =
  req_method :: string
  req_path :: string
  req_headers :: "string \<rightharpoonup> string"
  req_body :: string
  req_authRequest :: bool
  req_verbose :: bool

text \<open>What the adapter does to the outside: the transport calls made, the lines logged.\<close>

record world =
  sent :: "Request list"
  logged :: "string list"

text \<open>
  The collaborators that are not among the sources, taken as parameters:
  \<^item> \<open>SendPayload\<close>, the transport: the error it returns and the value it decodes into
    \<open>result\<close>;
  \<^item> \<open>GetHMAC\<close> (package common over crypto/hmac): hash kind, message, key;
  \<^item> \<open>FormatFloat\<close>: \<open>strconv.FormatFloat(x, 'f', -1, 64)\<close>;
  \<^item> \<open>credentialsWarning\<close>: the name of the exchange formatted into
    \<open>exchange.WarningAuthenticatedRequestWithoutCredentialsSet\<close>.
\<close>

record ('f, 'r) collaborators =
  SendPayload :: "Request \<Rightarrow> error option \<times> 'r"
  GetHMAC :: "HashType \<Rightarrow> string \<Rightarrow> string \<Rightarrow> string"
  FormatFloat :: "'f \<Rightarrow> string"
  credentialsWarning :: "string \<Rightarrow> string"

definition GetAvailablePairs :: "Liqui \<Rightarrow> bool \<Rightarrow> string list" where
  "GetAvailablePairs l nonHidden =
     fold (\<lambda>(x, y) pairs.
             if nonHidden \<and> Hidden y = 1 \<or> x = '''' then pairs
             else pairs @ [StringToUpper x])
          (Pairs (Info l)) []"

text \<open>
  \<open>SendAuthenticatedHTTPRequest\<close>. \<open>now\<close> is what \<open>time.Now().Unix()\<close> returns if this
  call reads the clock. The result is the returned error, the value decoded into
  \<open>result\<close> (\<open>None\<close> when the transport was not called), the adapter and the world
  afterwards.
\<close>

definition advance_nonce :: "int64 \<Rightarrow> Liqui \<Rightarrow> Liqui" where
  "advance_nonce now l =
     (if Nonce_Get (Nonce l) = 0 then l\<lparr>Nonce := Nonce_Set (Nonce l) now\<rparr>
      else l\<lparr>Nonce := Nonce_Inc (Nonce l)\<rparr>)"

definition sign_values :: "Liqui \<Rightarrow> string \<Rightarrow> Values \<Rightarrow> Values" where
  "sign_values l method values =
     Values_Set (Values_Set values ''nonce'' (Nonce_String (Nonce l))) ''method'' method"

definition SendAuthenticatedHTTPRequest ::
  "('f, 'r) collaborators \<Rightarrow> int64 \<Rightarrow> Liqui \<Rightarrow> world \<Rightarrow> string \<Rightarrow> Values
     \<Rightarrow> (error option \<times> 'r option) \<times> Liqui \<times> world" where
  "SendAuthenticatedHTTPRequest c now l w method values =
     (if \<not> AuthenticatedAPISupport l
        then ((Some (errorString (credentialsWarning c (Name l))), None), l, w)
      else
        let l1 = advance_nonce now l;
            encoded = Encode (sign_values l1 method values);
            hmac = GetHMAC c HashSHA512 encoded (APISecret l1);
            w1 = (if Verbose l1
                  then w\<lparr>logged := logged w @
                         [''Sending POST request to '' @ APIUrlSecondary l1 @
                          '' calling method '' @ method @ '' with params '' @ encoded @
                          [CHR 0x0A]]\<rparr>
                  else w);
            headers = [''Key'' \<mapsto> APIKey l1,
                       ''Sign'' \<mapsto> HexEncodeToString hmac,
                       ''Content-Type'' \<mapsto> ''application/x-www-form-urlencoded''];
            req = \<lparr>req_method = ''POST'', req_path = APIUrlSecondary l1,
                   req_headers = headers, req_body = encoded,
                   req_authRequest = True, req_verbose = Verbose l1\<rparr>;
            (err, res) = SendPayload c req
        in ((err, Some res), l1, w1\<lparr>sent := sent w1 @ [req]\<rparr>))"

text \<open>The private operations: each builds its parameters and goes through the signing path.\<close>

definition liquiAccountInfo :: string where "liquiAccountInfo = ''getInfo''"
definition liquiTrade :: string where "liquiTrade = ''Trade''"
definition liquiActiveOrders :: string where "liquiActiveOrders = ''ActiveOrders''"
definition liquiOrderInfo :: string where "liquiOrderInfo = ''OrderInfo''"
definition liquiCancelOrder :: string where "liquiCancelOrder = ''CancelOrder''"
definition liquiTradeHistory :: string where "liquiTradeHistory = ''TradeHistory''"
definition liquiWithdrawCoin :: string where "liquiWithdrawCoin = ''WithdrawCoin''"

definition GetAccountInfo ::
  "('f, 'r) collaborators \<Rightarrow> int64 \<Rightarrow> Liqui \<Rightarrow> world
     \<Rightarrow> (error option \<times> 'r option) \<times> Liqui \<times> world" where
  "GetAccountInfo c now l w = SendAuthenticatedHTTPRequest c now l w liquiAccountInfo []"

text \<open>\<open>Trade\<close> returns the \<open>OrderID\<close> field of the decoded value; here the value whole.\<close>

definition Trade ::
  "('f, 'r) collaborators \<Rightarrow> int64 \<Rightarrow> Liqui \<Rightarrow> world \<Rightarrow> string \<Rightarrow> string \<Rightarrow> 'f \<Rightarrow> 'f
     \<Rightarrow> (error option \<times> 'r option) \<times> Liqui \<times> world" where
  "Trade c now l w pair orderType amount price =
     (let req = Values_Add [] ''pair'' pair;
          req = Values_Add req ''type'' orderType;
          req = Values_Add req ''amount'' (FormatFloat c amount);
          req = Values_Add req ''rate'' (FormatFloat c price)
      in SendAuthenticatedHTTPRequest c now l w liquiTrade req)"

definition GetActiveOrders ::
  "('f, 'r) collaborators \<Rightarrow> int64 \<Rightarrow> Liqui \<Rightarrow> world \<Rightarrow> string
     \<Rightarrow> (error option \<times> 'r option) \<times> Liqui \<times> world" where
  "GetActiveOrders c now l w pair =
     (let req = Values_Add [] ''pair'' pair
      in SendAuthenticatedHTTPRequest c now l w liquiActiveOrders req)"

definition GetOrderInfo ::
  "('f, 'r) collaborators \<Rightarrow> int64 \<Rightarrow> Liqui \<Rightarrow> world \<Rightarrow> int64
     \<Rightarrow> (error option \<times> 'r option) \<times> Liqui \<times> world" where
  "GetOrderInfo c now l w OrderID =
     (let req = Values_Add [] ''order_id'' (FormatInt OrderID)
      in SendAuthenticatedHTTPRequest c now l w liquiOrderInfo req)"

text \<open>\<open>CancelOrder\<close> returns Go's pair \<open>(bool, error)\<close>; \<open>None\<close> is \<open>nil\<close>.\<close>

definition CancelOrder ::
  "('f, 'r) collaborators \<Rightarrow> int64 \<Rightarrow> Liqui \<Rightarrow> world \<Rightarrow> int64
     \<Rightarrow> (bool \<times> error option) \<times> Liqui \<times> world" where
  "CancelOrder c now l w OrderID =
     (let req = Values_Add [] ''order_id'' (FormatInt OrderID);
          ((err, result), l', w') = SendAuthenticatedHTTPRequest c now l w liquiCancelOrder req
      in case err of
           Some e \<Rightarrow> ((False, Some e), l', w')
         | None \<Rightarrow> ((True, None), l', w'))"

definition GetTradeHistory ::
  "('f, 'r) collaborators \<Rightarrow> int64 \<Rightarrow> Liqui \<Rightarrow> world \<Rightarrow> Values \<Rightarrow> string
     \<Rightarrow> (error option \<times> 'r option) \<times> Liqui \<times> world" where
  "GetTradeHistory c now l w vals pair =
     (let vals = (if pair \<noteq> [] then Values_Add vals ''pair'' pair else vals)
      in SendAuthenticatedHTTPRequest c now l w liquiTradeHistory vals)"

definition WithdrawCoins ::
  "('f, 'r) collaborators \<Rightarrow> int64 \<Rightarrow> Liqui \<Rightarrow> world \<Rightarrow> string \<Rightarrow> 'f \<Rightarrow> string
     \<Rightarrow> (error option \<times> 'r option) \<times> Liqui \<times> world" where
  "WithdrawCoins c now l w coin amount address =
     (let req = Values_Add [] ''coinName'' coin;
          req = Values_Add req ''amount'' (FormatFloat c amount);
          req = Values_Add req ''address'' address
      in SendAuthenticatedHTTPRequest c now l w liquiWithdrawCoin req)"

text \<open>
  A session: successive calls of the signing path on one adapter, each with the clock
  reading it would get, its method and its parameters. The nonce in force after each
  call is the one written into that call's body.
\<close>

fun session ::
  "('f, 'r) collaborators \<Rightarrow> Liqui \<Rightarrow> world \<Rightarrow> (int64 \<times> string \<times> Values) list
     \<Rightarrow> int64 list \<times> Liqui \<times> world" where
  "session c l w [] = ([], l, w)"
| "session c l w ((now, method, values) # rest) =
     (case SendAuthenticatedHTTPRequest c now l w method values of
        (r, l', w') \<Rightarrow>
          (case session c l' w' rest of
             (ns, l'', w'') \<Rightarrow> (Nonce_Get (Nonce l') # ns, l'', w'')))"

subsection \<open>Fees\<close>

text \<open>
  \<open>float64\<close> arithmetic is a parameter: the carrier \<open>'f\<close> with its zero, the product
  \<open>fmul\<close>, the comparison \<open>flt\<close> and the conversion \<open>flit\<close> of a decimal literal. IEEE 754
  is one instance, the real numbers another.
\<close>

record 'f arith =
  fmul :: "'f \<Rightarrow> 'f \<Rightarrow> 'f"
  flt :: "'f \<Rightarrow> 'f \<Rightarrow> bool"
  flit :: "rat \<Rightarrow> 'f"

text \<open>
  \<open>exchange.FeeBuilder\<close> with the fields read here; \<open>OtherFeeType\<close> stands for every tag
  the \<open>switch\<close> of \<open>GetFee\<close> has no case for.
\<close>

datatype FeeType = CryptocurrencyTradeFee | CryptocurrencyWithdrawalFee | OtherFeeType

record 'f FeeBuilder =
  FeeType :: FeeType
  FirstCurrency :: string
  PurchasePrice :: 'f
  Amount :: 'f
  IsMaker :: bool

text \<open>\<open>WithdrawalFees\<close> (a table of the package, not among the sources) is a parameter.\<close>

definition getCryptocurrencyWithdrawalFee :: "(string \<rightharpoonup> 'f::zero) \<Rightarrow> string \<Rightarrow> 'f" where
  "getCryptocurrencyWithdrawalFee WithdrawalFees currency =
     (case WithdrawalFees currency of None \<Rightarrow> 0 | Some fee \<Rightarrow> fee)"

definition calculateTradingFee :: "'f arith \<Rightarrow> 'f \<Rightarrow> 'f \<Rightarrow> bool \<Rightarrow> 'f" where
  "calculateTradingFee a purchasePrice amount isMaker =
     (let fee = (if isMaker then flit a (1 / 1000) else flit a (25 / 10000))
      in fmul a (fmul a fee purchasePrice) amount)"

definition GetFee ::
  "'f arith \<Rightarrow> (string \<rightharpoonup> 'f) \<Rightarrow> 'f FeeBuilder \<Rightarrow> ('f::zero) \<times> error option" where
  "GetFee a WithdrawalFees feeBuilder =
     (let fee = (case FeeType feeBuilder of
                   CryptocurrencyTradeFee \<Rightarrow>
                     calculateTradingFee a (PurchasePrice feeBuilder) (Amount feeBuilder)
                       (IsMaker feeBuilder)
                 | CryptocurrencyWithdrawalFee \<Rightarrow>
                     getCryptocurrencyWithdrawalFee WithdrawalFees (FirstCurrency feeBuilder)
                 | OtherFeeType \<Rightarrow> 0);
          fee = (if flt a fee 0 then 0 else fee)
      in (fee, None))"

section \<open>The Poloniex wrapper (src/unnamed/part_000)\<close>

text \<open>
  Modelled from the spec: \<open>pair.CurrencyPair\<close> is not among the sources; the spec has it as
  the ordered pair of a base and a quote currency.
\<close>

datatype CurrencyPair = CurrencyPair string string

text \<open>The wire types of the venue (poloniex_types.go), with the fields the wrapper reads.\<close>

record 'f Ticker =
  Ticker_Last :: 'f
  LowestAsk :: 'f
  HighestBid :: 'f
  BaseVolume :: 'f
  High24Hr :: 'f
  Low24Hr :: 'f

record 'f OrderbookItem =
  OrderbookItem_Price :: 'f
  OrderbookItem_Amount :: 'f

record 'f Orderbook =
  Orderbook_Asks :: "'f OrderbookItem list"
  Orderbook_Bids :: "'f OrderbookItem list"

record 'f OrderbookAll =
  Data :: "string \<rightharpoonup> 'f Orderbook"

text \<open>The canonical snapshots: \<open>ticker.Price\<close>, \<open>orderbook.Item\<close> and \<open>orderbook.Base\<close>.\<close>

record 'f Price =
  Price_Pair :: CurrencyPair
  Ask :: 'f
  Bid :: 'f
  High :: 'f
  Last :: 'f
  Low :: 'f
  Volume :: 'f

record 'f Item =
  Item_Amount :: 'f
  Item_Price :: 'f

record 'f Base =
  Base_Pair :: CurrencyPair
  Bids :: "'f Item list"
  Asks :: "'f Item list"

text \<open>Go's zero values: what a map lookup yields for an absent key, what \<open>var\<close> declares.\<close>

definition zero_CurrencyPair :: CurrencyPair where
  "zero_CurrencyPair = CurrencyPair [] []"

definition zero_Ticker :: "('f::zero) Ticker" where
  "zero_Ticker = \<lparr>Ticker_Last = 0, LowestAsk = 0, HighestBid = 0, BaseVolume = 0,
                   High24Hr = 0, Low24Hr = 0\<rparr>"

definition zero_Base :: "'f Base" where
  "zero_Base = \<lparr>Base_Pair = zero_CurrencyPair, Bids = [], Asks = []\<rparr>"

text \<open>
  Modelled from the spec: packages ticker and orderbook are not among the sources. The
  spec has one process-wide store of the latest snapshot per exchange, pair and asset
  type, with a lookup that yields the snapshot or a miss and a store that overwrites
  unconditionally. \<open>requests\<close> counts the calls made to the venue.
\<close>

type_synonym cache_key = "string \<times> CurrencyPair \<times> string"

record 'f market =
  Tickers :: "cache_key \<rightharpoonup> 'f Price"
  Orderbooks :: "cache_key \<rightharpoonup> 'f Base"
  requests :: nat

definition ticker_GetTicker ::
  "'f market \<Rightarrow> string \<Rightarrow> CurrencyPair \<Rightarrow> string \<Rightarrow> error + 'f Price" where
  "ticker_GetTicker m exchange p tickerType =
     (case Tickers m (exchange, p, tickerType) of None \<Rightarrow> Inl Miss | Some s \<Rightarrow> Inr s)"

definition ProcessTicker ::
  "'f market \<Rightarrow> string \<Rightarrow> CurrencyPair \<Rightarrow> 'f Price \<Rightarrow> string \<Rightarrow> 'f market" where
  "ProcessTicker m exchangeName p tickerNew tickerType =
     m\<lparr>Tickers := (Tickers m)((exchangeName, p, tickerType) \<mapsto> tickerNew)\<rparr>"

definition orderbook_GetOrderbook ::
  "'f market \<Rightarrow> string \<Rightarrow> CurrencyPair \<Rightarrow> string \<Rightarrow> error + 'f Base" where
  "orderbook_GetOrderbook m exchange p orderbookType =
     (case Orderbooks m (exchange, p, orderbookType) of None \<Rightarrow> Inl Miss | Some s \<Rightarrow> Inr s)"

definition ProcessOrderbook ::
  "'f market \<Rightarrow> string \<Rightarrow> CurrencyPair \<Rightarrow> 'f Base \<Rightarrow> string \<Rightarrow> 'f market" where
  "ProcessOrderbook m exchangeName p orderbookNew orderbookType =
     m\<lparr>Orderbooks := (Orderbooks m)((exchangeName, p, orderbookType) \<mapsto> orderbookNew)\<rparr>"

text \<open>
  The collaborators of the wrapper that are not among the sources, as parameters:
  what the venue answers to \<open>GetTicker()\<close> and to \<open>GetOrderbook(pair, depth)\<close> (an error,
  or the decoded table), the enabled pairs of the adapter, and the rendering of a pair in
  the venue's format (\<open>exchange.FormatExchangeCurrency(name, pair).String()\<close>).
\<close>

record 'f venue =
  GetTicker :: "error + (string \<rightharpoonup> 'f Ticker)"
  GetOrderbook :: "string \<Rightarrow> int \<Rightarrow> error + 'f OrderbookAll"
  GetEnabledCurrencies :: "Poloniex \<Rightarrow> CurrencyPair list"
  FormatExchangeCurrency :: "string \<Rightarrow> CurrencyPair \<Rightarrow> string"

definition GetName :: "Poloniex \<Rightarrow> string" where
  "GetName p = Name p"

text \<open>
  The body of the loop of \<open>UpdateTicker\<close>, for the enabled pair \<open>x\<close>: \<open>tick[curr]\<close> is
  Go's map index (the zero value for an absent key), \<open>to_Price\<close> the field-by-field copy
  into \<open>tp\<close>.
\<close>

definition map_index :: "(string \<rightharpoonup> ('f::zero) Ticker) \<Rightarrow> string \<Rightarrow> 'f Ticker" where
  "map_index tick key = (case tick key of None \<Rightarrow> zero_Ticker | Some t \<Rightarrow> t)"

definition to_Price :: "CurrencyPair \<Rightarrow> 'f Ticker \<Rightarrow> 'f Price" where
  "to_Price x t =
     \<lparr>Price_Pair = x, Ask = LowestAsk t, Bid = HighestBid t, High = High24Hr t,
      Last = Ticker_Last t, Low = Low24Hr t, Volume = BaseVolume t\<rparr>"

definition UpdateTicker_step ::
  "'f venue \<Rightarrow> Poloniex \<Rightarrow> (string \<rightharpoonup> 'f Ticker) \<Rightarrow> string \<Rightarrow> CurrencyPair
     \<Rightarrow> ('f::zero) market \<Rightarrow> 'f market" where
  "UpdateTicker_step v p tick assetType x m =
     (let curr = FormatExchangeCurrency v (GetName p) x;
          tp = to_Price x (map_index tick curr)
      in ProcessTicker m (GetName p) x tp assetType)"

definition UpdateTicker ::
  "'f venue \<Rightarrow> Poloniex \<Rightarrow> CurrencyPair \<Rightarrow> string \<Rightarrow> ('f::zero) market
     \<Rightarrow> (error + 'f Price) \<times> 'f market" where
  "UpdateTicker v p currencyPair assetType m =
     (let m1 = m\<lparr>requests := requests m + 1\<rparr> in
      case GetTicker v of
        Inl err \<Rightarrow> (Inl err, m1)
      | Inr tick \<Rightarrow>
          let m2 = fold (UpdateTicker_step v p tick assetType) (GetEnabledCurrencies v p) m1
          in (ticker_GetTicker m2 (Name p) currencyPair assetType, m2))"

definition GetTickerPrice ::
  "'f venue \<Rightarrow> Poloniex \<Rightarrow> CurrencyPair \<Rightarrow> string \<Rightarrow> ('f::zero) market
     \<Rightarrow> (error + 'f Price) \<times> 'f market" where
  "GetTickerPrice v p currencyPair assetType m =
     (case ticker_GetTicker m (GetName p) currencyPair assetType of
        Inl err \<Rightarrow> UpdateTicker v p currencyPair assetType m
      | Inr tickerNew \<Rightarrow> (Inr tickerNew, m))"

text \<open>
  The body of the loop of \<open>UpdateOrderbook\<close>. The variable \<open>orderBook\<close> is declared
  before the loop and lives across its rounds, so it is part of the loop's state.
\<close>

definition to_Item :: "'f OrderbookItem \<Rightarrow> 'f Item" where
  "to_Item obData = \<lparr>Item_Amount = OrderbookItem_Amount obData,
                      Item_Price = OrderbookItem_Price obData\<rparr>"

definition UpdateOrderbook_step ::
  "'f venue \<Rightarrow> Poloniex \<Rightarrow> 'f OrderbookAll \<Rightarrow> string \<Rightarrow> CurrencyPair
     \<Rightarrow> 'f Base \<times> 'f market \<Rightarrow> 'f Base \<times> 'f market" where
  "UpdateOrderbook_step v p orderbookNew assetType x st =
     (case st of (orderBook, m) \<Rightarrow>
        let currency = FormatExchangeCurrency v (Name p) x in
        case Data orderbookNew currency of
          None \<Rightarrow> (orderBook, m)
        | Some data \<Rightarrow>
            let orderBook = orderBook\<lparr>Base_Pair := x\<rparr>;
                obItems = fold (\<lambda>obData obItems. obItems @ [to_Item obData])
                            (Orderbook_Bids data) [];
                orderBook = orderBook\<lparr>Bids := obItems\<rparr>;
                obItems = fold (\<lambda>obData obItems. obItems @ [to_Item obData])
                            (Orderbook_Asks data) [];
                orderBook = orderBook\<lparr>Asks := obItems\<rparr>
            in (orderBook, ProcessOrderbook m (Name p) x orderBook assetType))"

text \<open>What a round of that loop stores for the pair \<open>x\<close> whose entry is \<open>data\<close>.\<close>

definition to_Base :: "CurrencyPair \<Rightarrow> 'f Orderbook \<Rightarrow> 'f Base" where
  "to_Base x data =
     \<lparr>Base_Pair = x, Bids = map to_Item (Orderbook_Bids data),
      Asks = map to_Item (Orderbook_Asks data)\<rparr>"

definition UpdateOrderbook ::
  "'f venue \<Rightarrow> Poloniex \<Rightarrow> CurrencyPair \<Rightarrow> string \<Rightarrow> 'f market
     \<Rightarrow> (error + 'f Base) \<times> 'f market" where
  "UpdateOrderbook v p currencyPair assetType m =
     (let m1 = m\<lparr>requests := requests m + 1\<rparr> in
      case GetOrderbook v [] 1000 of
        Inl err \<Rightarrow> (Inl err, m1)
      | Inr orderbookNew \<Rightarrow>
          let (orderBook, m2) =
                fold (UpdateOrderbook_step v p orderbookNew assetType)
                  (GetEnabledCurrencies v p) (zero_Base, m1)
          in (orderbook_GetOrderbook m2 (Name p) currencyPair assetType, m2))"

definition GetOrderbookEx ::
  "'f venue \<Rightarrow> Poloniex \<Rightarrow> CurrencyPair \<Rightarrow> string \<Rightarrow> 'f market
     \<Rightarrow> (error + 'f Base) \<times> 'f market" where
  "GetOrderbookEx v p currencyPair assetType m =
     (case orderbook_GetOrderbook m (GetName p) currencyPair assetType of
        Inl err \<Rightarrow> UpdateOrderbook v p currencyPair assetType m
      | Inr ob \<Rightarrow> (Inr ob, m))"

text \<open>
  The generic operations the wrapper does not implement. Each ignores its arguments and
  returns its zero value with a fresh \<open>errors.New\<close>; the zero value is dropped in the sum.
\<close>

definition GetExchangeFundTransferHistory :: "Poloniex \<Rightarrow> error + 'h list" where
  "GetExchangeFundTransferHistory p = Inl (errors_New ''not supported on exchange'')"

definition GetExchangeHistory :: "Poloniex \<Rightarrow> CurrencyPair \<Rightarrow> string \<Rightarrow> error + 'h list" where
  "GetExchangeHistory p currencyPair assetType =
     Inl (errors_New ''trade history not yet implemented'')"

definition SubmitExchangeOrder ::
  "Poloniex \<Rightarrow> CurrencyPair \<Rightarrow> 'side \<Rightarrow> 'otype \<Rightarrow> 'f \<Rightarrow> 'f \<Rightarrow> string \<Rightarrow> error + int64" where
  "SubmitExchangeOrder p currencyPair side orderType amount price clientID =
     Inl (errors_New ''not yet implemented'')"

definition ModifyExchangeOrder :: "Poloniex \<Rightarrow> int64 \<Rightarrow> 'modify \<Rightarrow> error + int64" where
  "ModifyExchangeOrder p orderID action = Inl (errors_New ''not yet implemented'')"

definition CancelExchangeOrder :: "Poloniex \<Rightarrow> int64 \<Rightarrow> error option" where
  "CancelExchangeOrder p orderID = Some (errors_New ''not yet implemented'')"

definition CancelAllExchangeOrders :: "Poloniex \<Rightarrow> error option" where
  "CancelAllExchangeOrders p = Some (errors_New ''not yet implemented'')"

definition GetExchangeOrderInfo :: "Poloniex \<Rightarrow> int64 \<Rightarrow> error + 'detail" where
  "GetExchangeOrderInfo p orderID = Inl (errors_New ''not yet implemented'')"

definition GetExchangeDepositAddress :: "Poloniex \<Rightarrow> 'item \<Rightarrow> error + string" where
  "GetExchangeDepositAddress p cryptocurrency = Inl (errors_New ''not yet implemented'')"

definition WithdrawCryptoExchangeFunds ::
  "Poloniex \<Rightarrow> string \<Rightarrow> 'item \<Rightarrow> 'f \<Rightarrow> error + string" where
  "WithdrawCryptoExchangeFunds p address cryptocurrency amount =
     Inl (errors_New ''not yet implemented'')"

definition WithdrawFiatExchangeFunds :: "Poloniex \<Rightarrow> 'item \<Rightarrow> 'f \<Rightarrow> error + string" where
  "WithdrawFiatExchangeFunds p currency amount = Inl (errors_New ''not yet implemented'')"

definition WithdrawFiatExchangeFundsToInternationalBank ::
  "Poloniex \<Rightarrow> 'item \<Rightarrow> 'f \<Rightarrow> error + string" where
  "WithdrawFiatExchangeFundsToInternationalBank p currency amount =
     Inl (errors_New ''not yet implemented'')"

section \<open>Worked inputs\<close>

text \<open>
  Stand-ins for the collaborators, used where a statement is evaluated on a concrete
  input: a transport that accepts every request and decodes nothing, a keyed function
  in the place of the HMAC (the key followed by the message), and real arithmetic in the
  place of \<open>float64\<close>.
\<close>

definition example_collaborators :: "(real, unit) collaborators" where
  "example_collaborators =
     \<lparr>SendPayload = (\<lambda>req. (None, ())), GetHMAC = (\<lambda>h msg key. key @ msg),
      FormatFloat = (\<lambda>x. ''1''), credentialsWarning = (\<lambda>name. name @ '': no credentials'')\<rparr>"

definition example_liqui :: Liqui where
  "example_liqui =
     \<lparr>Name = ''Liqui'', Verbose = False, AuthenticatedAPISupport = True, APIKey = ''key'',
      APISecret = ''secret'', APIUrlSecondary = ''https://api.Liqui.io/tapi'', Nonce = 0,
      Info = \<lparr>Pairs = [(''eth_btc'', \<lparr>Hidden = 0\<rparr>), (''ltc_btc'', \<lparr>Hidden = 1\<rparr>),
                        ([], \<lparr>Hidden = 0\<rparr>)]\<rparr>\<rparr>"

text \<open>
  Two adapters with neither key nor secret: \<open>locked_liqui\<close> with authenticated support
  switched off, \<open>unconfigured_liqui\<close> with it left on. \<open>keyless_request\<close> is what the
  second one sends for \<open>getInfo\<close> at clock 1500000000.
\<close>

definition locked_liqui :: Liqui where
  "locked_liqui =
     example_liqui\<lparr>AuthenticatedAPISupport := False, APIKey := [], APISecret := []\<rparr>"

definition unconfigured_liqui :: Liqui where
  "unconfigured_liqui = example_liqui\<lparr>APIKey := [], APISecret := []\<rparr>"

definition keyless_request :: Request where
  "keyless_request =
     \<lparr>req_method = ''POST'', req_path = ''https://api.Liqui.io/tapi'',
      req_headers = [''Key'' \<mapsto> [],
                     ''Sign'' \<mapsto> HexEncodeToString ''method=getInfo&nonce=1500000000'',
                     ''Content-Type'' \<mapsto> ''application/x-www-form-urlencoded''],
      req_body = ''method=getInfo&nonce=1500000000'', req_authRequest = True,
      req_verbose = False\<rparr>"

definition empty_world :: world where
  "empty_world = \<lparr>sent = [], logged = []\<rparr>"

definition real_arith :: "real arith" where
  "real_arith = \<lparr>fmul = (*), flt = (<), flit = of_rat\<rparr>"

definition losing_trade :: "real FeeBuilder" where
  "losing_trade =
     \<lparr>FeeType = CryptocurrencyTradeFee, FirstCurrency = ''BTC'', PurchasePrice = - 5,
      Amount = 3, IsMaker = False\<rparr>"

definition replayed_request :: Request where
  "replayed_request =
     \<lparr>req_method = ''POST'', req_path = ''https://api.Liqui.io/tapi'',
      req_headers = [''Key'' \<mapsto> ''key'',
                     ''Sign'' \<mapsto> HexEncodeToString (''secret'' @ ''method=getInfo&nonce=0''),
                     ''Content-Type'' \<mapsto> ''application/x-www-form-urlencoded''],
      req_body = ''method=getInfo&nonce=0'', req_authRequest = True, req_verbose = False\<rparr>"

definition three_calls :: "(int64 \<times> string \<times> Values) list" where
  "three_calls =
     [(1500000000, ''getInfo'', []),
      (1500000007, ''Trade'', [(''pair'', [''eth_btc''])]),
      (1500000009, ''getInfo'', [])]"

definition buy_order :: Values where
  "buy_order = [(''pair'', [''eth_btc'']), (''type'', [''buy''])]"

definition buy_order_reordered :: Values where
  "buy_order_reordered = [(''type'', [''buy'']), (''pair'', [''eth_btc''])]"

definition seeded_liqui :: Liqui where
  "seeded_liqui = example_liqui\<lparr>Nonce := 1499999999\<rparr>"

definition example_poloniex :: Poloniex where
  "example_poloniex =
     \<lparr>Name = ''Poloniex'', Verbose = False, AuthenticatedAPISupport = False, APIKey = [],
      APISecret = [], APIUrlSecondary = [], Nonce = 0\<rparr>"

definition btc_usd :: CurrencyPair where
  "btc_usd = CurrencyPair ''BTC'' ''USD''"

definition eth_usd :: CurrencyPair where
  "eth_usd = CurrencyPair ''ETH'' ''USD''"

definition btc_ticker :: "real Ticker" where
  "btc_ticker =
     \<lparr>Ticker_Last = 9000, LowestAsk = 9001, HighestBid = 8999, BaseVolume = 12,
      High24Hr = 9100, Low24Hr = 8900\<rparr>"

definition btc_book :: "real Orderbook" where
  "btc_book =
     \<lparr>Orderbook_Asks = [\<lparr>OrderbookItem_Price = 9001, OrderbookItem_Amount = 2\<rparr>],
      Orderbook_Bids = [\<lparr>OrderbookItem_Price = 8999, OrderbookItem_Amount = 1\<rparr>]\<rparr>"

definition underscore_format :: "string \<Rightarrow> CurrencyPair \<Rightarrow> string" where
  "underscore_format name p = (case p of CurrencyPair a b \<Rightarrow> a @ ''_'' @ b)"

text \<open>A venue whose batch answers cover \<open>BTC_USD\<close> but not \<open>ETH_USD\<close>, both enabled.\<close>

definition partial_venue :: "real venue" where
  "partial_venue =
     \<lparr>GetTicker = Inr [''BTC_USD'' \<mapsto> btc_ticker],
      GetOrderbook = (\<lambda>currencyPair depth. Inr \<lparr>Data = [''BTC_USD'' \<mapsto> btc_book]\<rparr>),
      GetEnabledCurrencies = (\<lambda>p. [btc_usd, eth_usd]),
      FormatExchangeCurrency = underscore_format\<rparr>"

text \<open>A venue whose ticker call fails, with a message of the venue's choosing.\<close>

definition failing_venue :: "real venue" where
  "failing_venue = partial_venue\<lparr>GetTicker := Inl (errors_New ''not yet implemented'')\<rparr>"

definition empty_market :: "real market" where
  "empty_market = \<lparr>Tickers = Map.empty, Orderbooks = Map.empty, requests = 0\<rparr>"

definition btc_price :: "real Price" where
  "btc_price =
     \<lparr>Price_Pair = btc_usd, Ask = 9001, Bid = 8999, High = 9100, Last = 9000, Low = 8900,
      Volume = 12\<rparr>"

definition btc_base :: "real Base" where
  "btc_base =
     \<lparr>Base_Pair = btc_usd, Bids = [\<lparr>Item_Amount = 1, Item_Price = 8999\<rparr>],
      Asks = [\<lparr>Item_Amount = 2, Item_Price = 9001\<rparr>]\<rparr>"

definition silent_venue :: "real venue" where
  "silent_venue =
     partial_venue\<lparr>GetTicker := Inl (errors_New ''connection refused''),
       GetOrderbook := (\<lambda>currencyPair depth. Inl (errors_New ''connection refused''))\<rparr>"

section \<open>Liqui: pairs, cancellation, credentials, fees\<close>

lemma fold_append_filter:
  "fold (\<lambda>p acc. if P p then acc else acc @ [f p]) xs acc =
     acc @ map f (filter (\<lambda>p. \<not> P p) xs)"
  by (induction xs arbitrary: acc) auto

lemma StringToUpper_Nil_iff: "[] = StringToUpper x \<longleftrightarrow> x = []"
  by (auto simp add: StringToUpper_def)

text \<open>
  Claim C9. \<open>GetAvailablePairs\<close> returns, in the order of the loop, the uppercase form of
  exactly those keys of the pair table that are not the empty string and, when
  \<open>nonHidden\<close> is set, whose entry is not marked \<open>Hidden = 1\<close>. So every string returned
  is the uppercase form of a key, no entry with the empty key contributes (and the empty
  string is never returned), and no hidden entry contributes when \<open>nonHidden\<close> is true.
\<close>

theorem GetAvailablePairs_spec:
  "GetAvailablePairs l nonHidden =
     map (\<lambda>(x, y). StringToUpper x)
       (filter (\<lambda>(x, y). x \<noteq> [] \<and> \<not> (nonHidden \<and> Hidden y = 1)) (Pairs (Info l)))
   \<and> [] \<notin> set (GetAvailablePairs l nonHidden)"
proof -
  have eq: "GetAvailablePairs l nonHidden =
     map (\<lambda>(x, y). StringToUpper x)
       (filter (\<lambda>(x, y). x \<noteq> [] \<and> \<not> (nonHidden \<and> Hidden y = 1)) (Pairs (Info l)))"
    unfolding GetAvailablePairs_def
    using fold_append_filter [of "\<lambda>p. nonHidden \<and> Hidden (snd p) = 1 \<or> fst p = []"
         "\<lambda>p. StringToUpper (fst p)" "Pairs (Info l)" "[]"]
    by (simp add: case_prod_unfold conj_commute)
  have "[] \<notin> set (GetAvailablePairs l nonHidden)"
    unfolding eq by (auto simp: StringToUpper_Nil_iff)
  with eq show ?thesis by simp
qed

text \<open>On the example adapter: one visible pair, one hidden pair, one entry with no name.\<close>

lemma GetAvailablePairs_example:
  "GetAvailablePairs example_liqui True = [''ETH_BTC'']
   \<and> GetAvailablePairs example_liqui False = [''ETH_BTC'', ''LTC_BTC'']"
  by code_simp

text \<open>
  Claim C10. The pair returned by \<open>CancelOrder\<close> is \<open>(true, nil)\<close> exactly when the
  authenticated request returns no error and \<open>(false, err)\<close> with that error otherwise;
  replacing what the transport decodes into \<open>result\<close> by anything else, with the same
  errors, changes nothing of what \<open>CancelOrder\<close> returns or does.
\<close>

theorem CancelOrder_spec:
  "fst (CancelOrder c now l w OrderID) =
     (case fst (fst (SendAuthenticatedHTTPRequest c now l w liquiCancelOrder
                       (Values_Add [] ''order_id'' (FormatInt OrderID)))) of
        None \<Rightarrow> (True, None)
      | Some e \<Rightarrow> (False, Some e))
   \<and> CancelOrder (c\<lparr>SendPayload := \<lambda>r. (fst (SendPayload c r), f r)\<rparr>) now l w OrderID =
       CancelOrder c now l w OrderID"
  by (simp add: CancelOrder_def SendAuthenticatedHTTPRequest_def Let_def
      split: prod.splits option.splits)

lemma no_credentials:
  "\<not> AuthenticatedAPISupport l \<Longrightarrow>
   SendAuthenticatedHTTPRequest c now l w method values =
     ((Some (errorString (credentialsWarning c (Name l))), None), l, w)"
  by (simp add: SendAuthenticatedHTTPRequest_def)

text \<open>
  Claim C2, as amended. When the adapter's \<open>AuthenticatedAPISupport\<close> flag is off, the
  signing path and every private operation return at once the failure built from the
  credentials warning, a plain error string: the adapter is unchanged (the nonce has not
  advanced) and the world is unchanged (nothing was sent to the transport, nothing was
  logged). The check reads the flag alone, never the API key or the secret.
\<close>

theorem private_calls_without_credentials:
  assumes "\<not> AuthenticatedAPISupport l"
  shows "SendAuthenticatedHTTPRequest c now l w method values =
           ((Some (errorString (credentialsWarning c (Name l))), None), l, w)
       \<and> GetAccountInfo c now l w =
           ((Some (errorString (credentialsWarning c (Name l))), None), l, w)
       \<and> Trade c now l w pair orderType amount price =
           ((Some (errorString (credentialsWarning c (Name l))), None), l, w)
       \<and> GetActiveOrders c now l w pair =
           ((Some (errorString (credentialsWarning c (Name l))), None), l, w)
       \<and> GetOrderInfo c now l w OrderID =
           ((Some (errorString (credentialsWarning c (Name l))), None), l, w)
       \<and> CancelOrder c now l w OrderID =
           ((False, Some (errorString (credentialsWarning c (Name l)))), l, w)
       \<and> GetTradeHistory c now l w vals pair =
           ((Some (errorString (credentialsWarning c (Name l))), None), l, w)
       \<and> WithdrawCoins c now l w coin amount address =
           ((Some (errorString (credentialsWarning c (Name l))), None), l, w)"
  using assms
  by (simp add: no_credentials GetAccountInfo_def Trade_def GetActiveOrders_def
      GetOrderInfo_def CancelOrder_def GetTradeHistory_def WithdrawCoins_def Let_def)

theorem private_calls_without_credentials_witness:
  "\<not> AuthenticatedAPISupport locked_liqui
   \<and> APIKey locked_liqui = [] \<and> APISecret locked_liqui = []
   \<and> CancelOrder example_collaborators 1500000000 locked_liqui empty_world 42 =
       ((False, Some (errorString ''Liqui: no credentials'')), locked_liqui, empty_world)
   \<and> sent (snd (snd (GetAccountInfo example_collaborators 1500000000 locked_liqui
                       empty_world))) = []
   \<and> Nonce (fst (snd (Trade example_collaborators 1500000000 locked_liqui empty_world
                          ''eth_btc'' ''buy'' 2 3))) = 0"
proof -
  have h: "\<not> AuthenticatedAPISupport locked_liqui"
    by (simp add: locked_liqui_def example_liqui_def)
  show ?thesis
    using h
      private_calls_without_credentials [OF h, where c = example_collaborators
        and now = 1500000000 and w = empty_world and pair = "''eth_btc''"
        and orderType = "''buy''" and amount = 2 and price = 3 and OrderID = 42]
    by (simp add: locked_liqui_def example_liqui_def example_collaborators_def
        empty_world_def)
qed

text \<open>
  Claim C8. Whatever the fee type, the maker flag, the price and the amount, \<open>GetFee\<close>
  returns no error and a fee that is not below zero, because a fee below zero is replaced
  by zero before it is returned. The statement holds for every arithmetic in which zero
  is not below itself, IEEE 754 included.
\<close>

theorem GetFee_not_negative:
  "\<not> flt a 0 0 \<Longrightarrow>
   \<not> flt a (fst (GetFee a WithdrawalFees feeBuilder)) 0
   \<and> snd (GetFee a WithdrawalFees feeBuilder) = None"
  by (simp add: GetFee_def Let_def)

theorem GetFee_not_negative_witness:
  "\<not> flt real_arith 0 0
   \<and> calculateTradingFee real_arith (- 5) 3 False = - 3 / 80
   \<and> \<not> flt real_arith (fst (GetFee real_arith Map.empty losing_trade)) 0
   \<and> GetFee real_arith Map.empty losing_trade = (0, None)"
proof -
  have h: "\<not> flt real_arith 0 0"
    by (simp add: real_arith_def)
  show ?thesis
    using h GetFee_not_negative [OF h, of Map.empty losing_trade]
    by (simp add: GetFee_def real_arith_def calculateTradingFee_def losing_trade_def
        Let_def of_rat_divide)
qed

section \<open>Liqui: the nonce of a session\<close>

lemma sint_add_nat:
  fixes t :: int64
  assumes "0 \<le> sint t" "sint t + int k < 2 ^ 63"
  shows "sint (t + of_nat k) = sint t + int k"
proof -
  have k: "signed_take_bit 63 (int k) = int k"
    using assms by (simp add: signed_take_bit_int_eq_self_iff)
  have "sint (t + of_nat k) = signed_take_bit 63 (sint t + int k)"
    by (simp add: sint_word_ariths signed_of_nat k)
  also have "\<dots> = sint t + int k"
    using assms by (simp add: signed_take_bit_int_eq_self_iff)
  finally show ?thesis .
qed

lemma advance_seeded:
  "Nonce l \<noteq> 0 \<Longrightarrow> Nonce (advance_nonce now l) = Nonce l + 1"
  by (simp add: advance_nonce_def Nonce_Get_def Nonce_Inc_def)

lemma advance_fresh:
  "Nonce l = 0 \<Longrightarrow> Nonce (advance_nonce now l) = now"
  by (simp add: advance_nonce_def Nonce_Get_def Nonce_Set_def)

lemma advance_keeps_flag:
  "AuthenticatedAPISupport (advance_nonce now l) = AuthenticatedAPISupport l"
  by (simp add: advance_nonce_def)

lemma signed_call_state:
  "AuthenticatedAPISupport l \<Longrightarrow>
   fst (snd (SendAuthenticatedHTTPRequest c now l w method values)) = advance_nonce now l"
  by (simp add: SendAuthenticatedHTTPRequest_def Let_def split: prod.splits)

text \<open>From a seeded nonce \<open>n\<close>, the calls of a session use \<open>n + 1\<close>, \<open>n + 2\<close>, ...\<close>

lemma session_seeded:
  fixes n :: int64
  assumes "AuthenticatedAPISupport l" "Nonce l = n" "0 < sint n"
    "sint n + int (length calls) < 2 ^ 63"
  shows "fst (session c l w calls) = map (\<lambda>k. n + of_nat (Suc k)) [0..<length calls]"
  using assms
proof (induction calls arbitrary: l w n)
  case Nil
  then show ?case by simp
next
  case (Cons call calls)
  obtain now meth vals where call: "call = (now, meth, vals)"
    by (cases call) auto
  obtain r l' w' where step: "SendAuthenticatedHTTPRequest c now l w meth vals = (r, l', w')"
    by (cases "SendAuthenticatedHTTPRequest c now l w meth vals") auto
  have n0: "n \<noteq> 0" using Cons.prems(3) by auto
  have l': "l' = advance_nonce now l"
    using signed_call_state [OF Cons.prems(1), of c now w meth vals] step by simp
  have nl': "Nonce l' = n + 1"
    using advance_seeded [of l now] n0 Cons.prems(2) l' by simp
  have s1: "sint (n + 1) = sint n + 1"
    using sint_add_nat [of n 1] Cons.prems(3,4) by simp
  have IH: "fst (session c l' w' calls) = map (\<lambda>k. (n + 1) + of_nat (Suc k)) [0..<length calls]"
    using Cons.IH [of l' "n + 1" w'] Cons.prems l' nl' s1 by (simp add: advance_keeps_flag)
  have "fst (session c l w (call # calls)) = (n + 1) # fst (session c l' w' calls)"
    by (simp add: call step nl' Nonce_Get_def split: prod.splits)
  also have "\<dots> = map (\<lambda>k. n + of_nat (Suc k)) [0..<Suc (length calls)]"
    unfolding IH by (simp add: upt_rec [of 0] map_Suc_upt [symmetric] del: upt_Suc add: ac_simps)
  finally show ?case by simp
qed

text \<open>
  Claim C1, as amended. In a session that starts unseeded (stored nonce 0) with
  credentials configured, whose first signed request reads a positive wall-clock time
  \<open>t\<close> in seconds, and as long as the nonces stay below \<open>2^63\<close>: the first signed
  request uses the nonce \<open>t\<close>, the \<open>k\<close>-th one after it uses \<open>t + k\<close> (each call advances
  the stored nonce by exactly one, whatever the clock reads then), so the nonces of the
  session are strictly increasing and none is used twice.
\<close>

theorem session_nonces:
  fixes t :: int64
  assumes "AuthenticatedAPISupport l" "Nonce l = 0" "0 < sint t"
    "sint t + int (length calls) < 2 ^ 63"
  shows "fst (session c l w ((t, meth, vals) # calls)) =
           map (\<lambda>k. t + of_nat k) [0..<Suc (length calls)]
       \<and> sorted_wrt (\<lambda>a b. sint a < sint b) (fst (session c l w ((t, meth, vals) # calls)))
       \<and> distinct (fst (session c l w ((t, meth, vals) # calls)))"
proof -
  let ?ns = "fst (session c l w ((t, meth, vals) # calls))"
  obtain r l' w' where step: "SendAuthenticatedHTTPRequest c t l w meth vals = (r, l', w')"
    by (cases "SendAuthenticatedHTTPRequest c t l w meth vals") auto
  have l': "l' = advance_nonce t l"
    using signed_call_state [OF assms(1), of c t w meth vals] step by simp
  have nl': "Nonce l' = t"
    using advance_fresh [OF assms(2), of t] l' by simp
  have rest: "fst (session c l' w' calls) = map (\<lambda>k. t + of_nat (Suc k)) [0..<length calls]"
    using session_seeded [of l' t calls c w'] assms l' nl' by (simp add: advance_keeps_flag)
  have "?ns = t # fst (session c l' w' calls)"
    by (simp add: step nl' Nonce_Get_def split: prod.splits)
  also have "\<dots> = map (\<lambda>k. t + of_nat k) [0..<Suc (length calls)]"
    unfolding rest by (simp add: upt_rec [of 0] map_Suc_upt [symmetric] del: upt_Suc)
  finally have eq: "?ns = map (\<lambda>k. t + of_nat k) [0..<Suc (length calls)]" .
  have val: "sint (t + of_nat k) = sint t + int k" if "k < Suc (length calls)" for k
    using sint_add_nat [of t k] assms(3,4) that by simp
  have "sorted_wrt (\<lambda>i j. sint (t + of_nat i) < sint (t + of_nat j)) [0..<Suc (length calls)]"
    by (rule sorted_wrt_mono_rel [where P = "(<)"]) (simp_all add: val del: upt_Suc)
  then have incr: "sorted_wrt (\<lambda>a b. sint a < sint b) ?ns"
    unfolding eq by (simp add: sorted_wrt_map del: upt_Suc)
  then have "sorted_wrt (<) (map sint ?ns)"
    by (simp add: sorted_wrt_map)
  then have "distinct (map sint ?ns)"
    by (simp add: strict_sorted_iff)
  then have "distinct ?ns"
    by (simp add: distinct_map)
  with eq incr show ?thesis by simp
qed

theorem session_nonces_witness:
  "AuthenticatedAPISupport example_liqui \<and> Nonce example_liqui = 0
   \<and> 0 < sint (1500000000 :: int64)
   \<and> fst (session example_collaborators example_liqui empty_world three_calls) =
       [1500000000, 1500000001, 1500000002]
   \<and> distinct (fst (session example_collaborators example_liqui empty_world three_calls))"
proof -
  have h1: "AuthenticatedAPISupport example_liqui" and h2: "Nonce example_liqui = 0"
    by (simp_all add: example_liqui_def)
  have h3: "0 < sint (1500000000 :: int64)"
    by simp
  have h4: "sint (1500000000 :: int64)
      + int (length [(1500000007 :: int64, ''Trade'', [(''pair'', [''eth_btc''])]),
                     (1500000009, ''getInfo'', [])]) < 2 ^ 63"
    by simp
  have "[0..<Suc (Suc (Suc 0))] = [0, 1, 2]"
    by (simp add: upt_rec)
  then show ?thesis
    using h1 h2 h3
      session_nonces [OF h1 h2 h3 h4, of example_collaborators empty_world "''getInfo''" "[]"]
    by (simp add: three_calls_def)
qed

lemma FormatInt_0: "FormatInt 0 = ''0''"
  by (simp add: FormatInt_def nat_dec.simps digit_char_def)

lemma Encode_getInfo_0:
  "Encode (Values_Set (Values_Set [] ''nonce'' ''0'') ''method'' ''getInfo'') =
     ''method=getInfo&nonce=0''"
  by code_simp

lemma epoch_call:
  "SendAuthenticatedHTTPRequest example_collaborators 0 example_liqui w ''getInfo'' [] =
     ((None, Some ()), example_liqui, w\<lparr>sent := sent w @ [replayed_request]\<rparr>)"
  by (simp add: SendAuthenticatedHTTPRequest_def example_liqui_def example_collaborators_def
      advance_nonce_def Nonce_Get_def Nonce_Set_def Nonce_String_def Let_def sign_values_def
      FormatInt_0 Encode_getInfo_0 replayed_request_def)

text \<open>
  Claim C1 as stated fails where the clock reads 0 (the epoch): the stored 0 means
  "unseeded", so the second signed request reads the clock again instead of adding one.
  Two calls at clock 0 both use the nonce 0 and send the very same signed request.
\<close>

theorem nonce_reused_at_epoch:
  "session example_collaborators example_liqui empty_world
     [(0, ''getInfo'', []), (0, ''getInfo'', [])] =
   ([0, 0], example_liqui, \<lparr>sent = [replayed_request, replayed_request], logged = []\<rparr>)"
  by (simp add: epoch_call Nonce_Get_def empty_world_def) (simp add: example_liqui_def)

section \<open>Liqui: the signed request\<close>

lemma Values_keys_dom: "Values_keys v = sorted_list_of_set (dom (map_of v))"
proof -
  have "sorted_list_of_set (set (map fst v)) = sort (remdups (map fst v))"
    by (rule sorted_list_of_set_sort_remdups)
  then show ?thesis
    by (simp add: Values_keys_def dom_map_of_conv_image_fst)
qed

lemma Encode_cong: "map_of a = map_of b \<Longrightarrow> Encode a = Encode b"
  by (simp add: Encode_def Values_keys_dom Values_Get_all_def)

lemma map_of_Values_Set: "map_of (Values_Set v k x) = (map_of v)(k \<mapsto> [x])"
  by (simp add: Values_Set_def update_conv')

lemma HexEncodeToString_lower: "set (HexEncodeToString bs) \<subseteq> set hextable"
proof -
  have len: "length hextable = 16"
    by (simp add: hextable_def)
  have hi: "hextable ! (of_char b div 16) \<in> set hextable" for b
    by (rule nth_mem) (simp add: len less_mult_imp_div_less)
  have lo: "hextable ! (of_char b mod 16) \<in> set hextable" for b
    by (rule nth_mem) (simp add: len)
  show ?thesis
    unfolding HexEncodeToString_def using hi lo by auto
qed

lemma sent_signed:
  "AuthenticatedAPISupport l \<Longrightarrow>
   sent (snd (snd (SendAuthenticatedHTTPRequest c now l w meth vals))) =
     sent w @
     [\<lparr>req_method = ''POST'', req_path = APIUrlSecondary l,
       req_headers =
         [''Key'' \<mapsto> APIKey l,
          ''Sign'' \<mapsto> HexEncodeToString (GetHMAC c HashSHA512
             (Encode (sign_values (advance_nonce now l) meth vals)) (APISecret l)),
          ''Content-Type'' \<mapsto> ''application/x-www-form-urlencoded''],
       req_body = Encode (sign_values (advance_nonce now l) meth vals),
       req_authRequest = True, req_verbose = Verbose l\<rparr>]"
  by (simp add: SendAuthenticatedHTTPRequest_def Let_def advance_nonce_def split: prod.splits)

lemma Encode_sign_values_cong:
  "map_of vals2 = map_of vals \<Longrightarrow> Nonce l2 = Nonce l \<Longrightarrow>
   Encode (sign_values l2 meth vals2) = Encode (sign_values l meth vals)"
  by (rule Encode_cong) (simp add: sign_values_def map_of_Values_Set)

lemma HexEncodeToString_lowercase:
  "set (HexEncodeToString bs) \<subseteq> set ''0123456789abcdef''"
  using HexEncodeToString_lower [of bs] unfolding hextable_def .

lemma sent_signed':
  assumes "AuthenticatedAPISupport l"
  shows "sent (snd (snd (SendAuthenticatedHTTPRequest c now l w meth vals))) =
     sent w @
     [\<lparr>req_method = ''POST'', req_path = APIUrlSecondary l,
       req_headers =
         [''Key'' \<mapsto> APIKey l,
          ''Sign'' \<mapsto> HexEncodeToString (GetHMAC c HashSHA512
             (Encode (Values_Set (Values_Set vals ''nonce''
                (FormatInt (Nonce (advance_nonce now l)))) ''method'' meth)) (APISecret l)),
          ''Content-Type'' \<mapsto> ''application/x-www-form-urlencoded''],
       req_body = Encode (Values_Set (Values_Set vals ''nonce''
                (FormatInt (Nonce (advance_nonce now l)))) ''method'' meth),
       req_authRequest = True, req_verbose = Verbose l\<rparr>]"
  unfolding sent_signed [OF assms] sign_values_def Nonce_String_def ..

lemma same_body:
  assumes "AuthenticatedAPISupport l" "AuthenticatedAPISupport l2"
    "map_of vals2 = map_of vals" "Nonce (advance_nonce now2 l2) = Nonce (advance_nonce now l)"
  shows "req_body (last (sent (snd (snd (SendAuthenticatedHTTPRequest c now2 l2 w2 meth vals2))))) =
          req_body (last (sent (snd (snd (SendAuthenticatedHTTPRequest c now l w meth vals)))))"
  unfolding sent_signed [OF assms(1)] sent_signed [OF assms(2)]
  using Encode_sign_values_cong [OF assms(3,4), of meth] by simp

lemma same_sign:
  assumes "AuthenticatedAPISupport l" "AuthenticatedAPISupport l2" "APISecret l2 = APISecret l"
    "map_of vals2 = map_of vals" "Nonce (advance_nonce now2 l2) = Nonce (advance_nonce now l)"
  shows "req_headers (last (sent (snd (snd
              (SendAuthenticatedHTTPRequest c now2 l2 w2 meth vals2))))) ''Sign'' =
          req_headers (last (sent (snd (snd
              (SendAuthenticatedHTTPRequest c now l w meth vals))))) ''Sign''"
  unfolding sent_signed [OF assms(1)] sent_signed [OF assms(2)]
  using Encode_sign_values_cong [OF assms(4,5), of meth] assms(3) by simp

text \<open>
  Claim C3. With credentials configured, one call of the signing path makes exactly one
  transport call: a \<open>POST\<close> to the private URL whose body is \<open>Encode\<close> of the
  parameters after \<open>nonce\<close> (the decimal of the nonce in force) and \<open>method\<close> have
  been set, and whose headers are exactly \<open>Key\<close> (the API key), \<open>Sign\<close> (the lowercase
  hexadecimal rendering of the HMAC-SHA512 of that body under the secret) and
  \<open>Content-Type\<close>. Body and signature are a function of the secret, the parameters
  as a map, the method and the nonce alone: a second run with the same secret, the same
  parameter map (whatever the order Go iterates it in) and the same nonce, in any other
  state of adapter, clock and world, gives the same body and the same signature.
\<close>

theorem signed_request:
  assumes "AuthenticatedAPISupport l"
  shows "sent (snd (snd (SendAuthenticatedHTTPRequest c now l w meth vals))) =
     sent w @
     [\<lparr>req_method = ''POST'', req_path = APIUrlSecondary l,
       req_headers =
         [''Key'' \<mapsto> APIKey l,
          ''Sign'' \<mapsto> HexEncodeToString (GetHMAC c HashSHA512
             (Encode (Values_Set (Values_Set vals ''nonce''
                (FormatInt (Nonce (advance_nonce now l)))) ''method'' meth)) (APISecret l)),
          ''Content-Type'' \<mapsto> ''application/x-www-form-urlencoded''],
       req_body = Encode (Values_Set (Values_Set vals ''nonce''
                (FormatInt (Nonce (advance_nonce now l)))) ''method'' meth),
       req_authRequest = True, req_verbose = Verbose l\<rparr>]
   \<and> set (HexEncodeToString (GetHMAC c HashSHA512
             (Encode (Values_Set (Values_Set vals ''nonce''
                (FormatInt (Nonce (advance_nonce now l)))) ''method'' meth)) (APISecret l)))
       \<subseteq> set ''0123456789abcdef''
   \<and> (\<forall>now2 l2 w2 vals2.
        AuthenticatedAPISupport l2 \<and> APISecret l2 = APISecret l \<and> map_of vals2 = map_of vals
        \<and> Nonce (advance_nonce now2 l2) = Nonce (advance_nonce now l) \<longrightarrow>
        req_body (last (sent (snd (snd (SendAuthenticatedHTTPRequest c now2 l2 w2 meth vals2))))) =
          req_body (last (sent (snd (snd (SendAuthenticatedHTTPRequest c now l w meth vals)))))
        \<and> req_headers (last (sent (snd (snd
              (SendAuthenticatedHTTPRequest c now2 l2 w2 meth vals2))))) ''Sign'' =
          req_headers (last (sent (snd (snd
              (SendAuthenticatedHTTPRequest c now l w meth vals))))) ''Sign'')"
proof (intro conjI allI impI)
  show "sent (snd (snd (SendAuthenticatedHTTPRequest c now l w meth vals))) =
     sent w @
     [\<lparr>req_method = ''POST'', req_path = APIUrlSecondary l,
       req_headers =
         [''Key'' \<mapsto> APIKey l,
          ''Sign'' \<mapsto> HexEncodeToString (GetHMAC c HashSHA512
             (Encode (Values_Set (Values_Set vals ''nonce''
                (FormatInt (Nonce (advance_nonce now l)))) ''method'' meth)) (APISecret l)),
          ''Content-Type'' \<mapsto> ''application/x-www-form-urlencoded''],
       req_body = Encode (Values_Set (Values_Set vals ''nonce''
                (FormatInt (Nonce (advance_nonce now l)))) ''method'' meth),
       req_authRequest = True, req_verbose = Verbose l\<rparr>]"
    by (rule sent_signed' [OF assms])
next
  show "set (HexEncodeToString (GetHMAC c HashSHA512
             (Encode (Values_Set (Values_Set vals ''nonce''
                (FormatInt (Nonce (advance_nonce now l)))) ''method'' meth)) (APISecret l)))
       \<subseteq> set ''0123456789abcdef''"
    by (rule HexEncodeToString_lowercase)
next
  fix now2 l2 w2 vals2
  assume h: "AuthenticatedAPISupport l2 \<and> APISecret l2 = APISecret l
      \<and> map_of vals2 = map_of vals
      \<and> Nonce (advance_nonce now2 l2) = Nonce (advance_nonce now l)"
  from h have a: "AuthenticatedAPISupport l2" by (rule conjunct1)
  from h have b: "APISecret l2 = APISecret l" by (elim conjE)
  from h have m: "map_of vals2 = map_of vals" by (elim conjE)
  from h have n: "Nonce (advance_nonce now2 l2) = Nonce (advance_nonce now l)" by (elim conjE)
  show "req_body (last (sent (snd (snd
        (SendAuthenticatedHTTPRequest c now2 l2 w2 meth vals2))))) =
      req_body (last (sent (snd (snd (SendAuthenticatedHTTPRequest c now l w meth vals)))))"
    by (rule same_body [OF assms a m n])
  show "req_headers (last (sent (snd (snd
        (SendAuthenticatedHTTPRequest c now2 l2 w2 meth vals2))))) ''Sign'' =
      req_headers (last (sent (snd (snd
        (SendAuthenticatedHTTPRequest c now l w meth vals))))) ''Sign''"
    by (rule same_sign [OF assms a b m n])
qed

lemma FormatInt_1500000000: "FormatInt 1500000000 = ''1500000000''"
  by (simp add: FormatInt_def nat_dec.simps digit_char_def)

lemma Encode_buy_order:
  "Encode (Values_Set (Values_Set buy_order ''nonce'' ''1500000000'') ''method'' ''Trade'') =
     ''method=Trade&nonce=1500000000&pair=eth_btc&type=buy''"
  by code_simp

lemma map_of_buy_order: "map_of buy_order_reordered = map_of buy_order"
  by (auto simp: buy_order_def buy_order_reordered_def)

theorem signed_request_witness:
  "AuthenticatedAPISupport example_liqui
   \<and> map req_body (sent (snd (snd (SendAuthenticatedHTTPRequest example_collaborators
         1500000000 example_liqui empty_world ''Trade'' buy_order)))) =
       [''method=Trade&nonce=1500000000&pair=eth_btc&type=buy'']
   \<and> req_body (last (sent (snd (snd (SendAuthenticatedHTTPRequest example_collaborators
         1500000123 seeded_liqui empty_world ''Trade'' buy_order_reordered))))) =
       ''method=Trade&nonce=1500000000&pair=eth_btc&type=buy''"
proof -
  have h: "AuthenticatedAPISupport example_liqui"
    by (simp add: example_liqui_def)
  have n1: "Nonce (advance_nonce 1500000000 example_liqui) = 1500000000"
    by (simp add: advance_nonce_def example_liqui_def Nonce_Get_def Nonce_Set_def)
  have n2: "Nonce (advance_nonce 1500000123 seeded_liqui) = 1500000000"
    by (simp add: advance_nonce_def seeded_liqui_def example_liqui_def Nonce_Get_def
        Nonce_Inc_def)
  have h2: "AuthenticatedAPISupport seeded_liqui \<and> APISecret seeded_liqui = APISecret example_liqui
      \<and> map_of buy_order_reordered = map_of buy_order
      \<and> Nonce (advance_nonce 1500000123 seeded_liqui) =
          Nonce (advance_nonce 1500000000 example_liqui)"
    by (simp add: n1 n2 map_of_buy_order) (simp add: seeded_liqui_def example_liqui_def)
  note t = signed_request [OF h, of example_collaborators 1500000000 empty_world "''Trade''"
      buy_order]
  from t have body: "map req_body (sent (snd (snd (SendAuthenticatedHTTPRequest
      example_collaborators 1500000000 example_liqui empty_world ''Trade'' buy_order)))) =
       [''method=Trade&nonce=1500000000&pair=eth_btc&type=buy'']"
    by (simp add: n1 FormatInt_1500000000 Encode_buy_order empty_world_def)
  from t h2 have "req_body (last (sent (snd (snd (SendAuthenticatedHTTPRequest
        example_collaborators 1500000123 seeded_liqui empty_world ''Trade''
        buy_order_reordered))))) =
      req_body (last (sent (snd (snd (SendAuthenticatedHTTPRequest
        example_collaborators 1500000000 example_liqui empty_world ''Trade'' buy_order)))))"
    by blast
  also from t have "\<dots> = ''method=Trade&nonce=1500000000&pair=eth_btc&type=buy''"
    by (simp add: n1 FormatInt_1500000000 Encode_buy_order empty_world_def)
  finally show ?thesis
    using h body by simp
qed

text \<open>
  Claim C2 as stated fails for an adapter with no key and no secret whose flag is on: the
  private operation does not fail. It advances the nonce, signs the body under the empty
  secret and calls the transport once.
\<close>

lemma Encode_getInfo_1500000000:
  "Encode (Values_Set (Values_Set [] ''nonce'' ''1500000000'') ''method'' ''getInfo'') =
     ''method=getInfo&nonce=1500000000''"
  by code_simp

theorem flag_on_without_credentials:
  "APIKey unconfigured_liqui = [] \<and> APISecret unconfigured_liqui = []
   \<and> GetAccountInfo example_collaborators 1500000000 unconfigured_liqui empty_world =
       ((None, Some ()), unconfigured_liqui\<lparr>Nonce := 1500000000\<rparr>,
        \<lparr>sent = [keyless_request], logged = []\<rparr>)"
  by (simp add: GetAccountInfo_def liquiAccountInfo_def SendAuthenticatedHTTPRequest_def
      unconfigured_liqui_def example_liqui_def example_collaborators_def advance_nonce_def
      Nonce_Get_def Nonce_Set_def Nonce_String_def Let_def sign_values_def empty_world_def
      FormatInt_1500000000 Encode_getInfo_1500000000 keyless_request_def)

section \<open>Poloniex: cached market data\<close>

lemma ticker_step:
  "UpdateTicker_step v p tick a x m =
     m\<lparr>Tickers := (Tickers m)((Name p, x, a) \<mapsto>
          to_Price x (map_index tick (FormatExchangeCurrency v (Name p) x)))\<rparr>"
  by (simp add: UpdateTicker_step_def ProcessTicker_def GetName_def)

lemma requests_ticker_loop:
  "requests (fold (UpdateTicker_step v p tick a) xs m) = requests m"
  by (induction xs arbitrary: m) (simp_all add: ticker_step)

lemma Orderbooks_ticker_loop:
  "Orderbooks (fold (UpdateTicker_step v p tick a) xs m) = Orderbooks m"
  by (induction xs arbitrary: m) (simp_all add: ticker_step)

lemma Tickers_ticker_loop:
  "Tickers (fold (UpdateTicker_step v p tick a) xs m) k =
     (if fst k = Name p \<and> snd (snd k) = a \<and> fst (snd k) \<in> set xs
      then Some (to_Price (fst (snd k))
                  (map_index tick (FormatExchangeCurrency v (Name p) (fst (snd k)))))
      else Tickers m k)"
proof (induction xs arbitrary: m)
  case Nil
  then show ?case by simp
next
  case (Cons x xs)
  have "Tickers (fold (UpdateTicker_step v p tick a) (x # xs) m) k =
      Tickers (fold (UpdateTicker_step v p tick a) xs (UpdateTicker_step v p tick a x m)) k"
    by simp
  also have "\<dots> =
     (if fst k = Name p \<and> snd (snd k) = a \<and> fst (snd k) \<in> set xs
      then Some (to_Price (fst (snd k))
                  (map_index tick (FormatExchangeCurrency v (Name p) (fst (snd k)))))
      else Tickers (UpdateTicker_step v p tick a x m) k)"
    by (rule Cons.IH)
  also have "\<dots> =
     (if fst k = Name p \<and> snd (snd k) = a \<and> fst (snd k) \<in> set (x # xs)
      then Some (to_Price (fst (snd k))
                  (map_index tick (FormatExchangeCurrency v (Name p) (fst (snd k)))))
      else Tickers m k)"
    by (cases k) (auto simp: ticker_step)
  finally show ?case .
qed

lemma items_loop: "fold (\<lambda>obData obItems. obItems @ [to_Item obData]) xs acc = acc @ map to_Item xs"
  by (induction xs arbitrary: acc) simp_all

lemma orderbook_step:
  "UpdateOrderbook_step v p ob a x (orderBook, m) =
     (case Data ob (FormatExchangeCurrency v (Name p) x) of
        None \<Rightarrow> (orderBook, m)
      | Some data \<Rightarrow> (to_Base x data, ProcessOrderbook m (Name p) x (to_Base x data) a))"
  by (cases orderBook)
    (simp add: UpdateOrderbook_step_def Let_def items_loop to_Base_def split: option.splits)

lemma requests_orderbook_step:
  "requests (snd (UpdateOrderbook_step v p ob a x st)) = requests (snd st)"
  by (cases st) (simp add: orderbook_step ProcessOrderbook_def split: option.splits)

lemma Tickers_orderbook_step:
  "Tickers (snd (UpdateOrderbook_step v p ob a x st)) = Tickers (snd st)"
  by (cases st) (simp add: orderbook_step ProcessOrderbook_def split: option.splits)

lemma Orderbooks_orderbook_step:
  "Orderbooks (snd (UpdateOrderbook_step v p ob a x st)) k =
     (if k = (Name p, x, a) \<and> Data ob (FormatExchangeCurrency v (Name p) x) \<noteq> None
      then Some (to_Base x (the (Data ob (FormatExchangeCurrency v (Name p) x))))
      else Orderbooks (snd st) k)"
  by (cases st) (auto simp: orderbook_step ProcessOrderbook_def split: option.splits)

lemma requests_orderbook_loop:
  "requests (snd (fold (UpdateOrderbook_step v p ob a) xs st)) = requests (snd st)"
  by (induction xs arbitrary: st) (simp_all add: requests_orderbook_step)

lemma Tickers_orderbook_loop:
  "Tickers (snd (fold (UpdateOrderbook_step v p ob a) xs st)) = Tickers (snd st)"
  by (induction xs arbitrary: st) (simp_all add: Tickers_orderbook_step)

lemma Orderbooks_orderbook_loop:
  "Orderbooks (snd (fold (UpdateOrderbook_step v p ob a) xs st)) k =
     (if fst k = Name p \<and> snd (snd k) = a \<and> fst (snd k) \<in> set xs
         \<and> Data ob (FormatExchangeCurrency v (Name p) (fst (snd k))) \<noteq> None
      then Some (to_Base (fst (snd k))
                  (the (Data ob (FormatExchangeCurrency v (Name p) (fst (snd k))))))
      else Orderbooks (snd st) k)"
proof (induction xs arbitrary: st)
  case Nil
  then show ?case by simp
next
  case (Cons x xs)
  have "Orderbooks (snd (fold (UpdateOrderbook_step v p ob a) (x # xs) st)) k =
      Orderbooks (snd (fold (UpdateOrderbook_step v p ob a) xs
        (UpdateOrderbook_step v p ob a x st))) k"
    by simp
  also have "\<dots> =
     (if fst k = Name p \<and> snd (snd k) = a \<and> fst (snd k) \<in> set xs
         \<and> Data ob (FormatExchangeCurrency v (Name p) (fst (snd k))) \<noteq> None
      then Some (to_Base (fst (snd k))
                  (the (Data ob (FormatExchangeCurrency v (Name p) (fst (snd k))))))
      else Orderbooks (snd (UpdateOrderbook_step v p ob a x st)) k)"
    by (rule Cons.IH)
  also have "\<dots> =
     (if fst k = Name p \<and> snd (snd k) = a \<and> fst (snd k) \<in> set (x # xs)
         \<and> Data ob (FormatExchangeCurrency v (Name p) (fst (snd k))) \<noteq> None
      then Some (to_Base (fst (snd k))
                  (the (Data ob (FormatExchangeCurrency v (Name p) (fst (snd k))))))
      else Orderbooks (snd st) k)"
    by (cases k) (auto simp: Orderbooks_orderbook_step)
  finally show ?case .
qed

lemma ticker_hit:
  "Tickers m (Name p, cp, a) = Some s \<Longrightarrow> GetTickerPrice v p cp a m = (Inr s, m)"
  by (simp add: GetTickerPrice_def ticker_GetTicker_def GetName_def)

lemma ticker_miss:
  "Tickers m (Name p, cp, a) = None \<Longrightarrow> GetTickerPrice v p cp a m = UpdateTicker v p cp a m"
  by (simp add: GetTickerPrice_def ticker_GetTicker_def GetName_def)

lemma UpdateTicker_requests: "requests (snd (UpdateTicker v p cp a m)) = Suc (requests m)"
  by (simp add: UpdateTicker_def Let_def requests_ticker_loop split: sum.splits)

lemma UpdateTicker_error:
  "GetTicker v = Inl e \<Longrightarrow>
   UpdateTicker v p cp a m = (Inl e, m\<lparr>requests := Suc (requests m)\<rparr>)"
  by (simp add: UpdateTicker_def)

lemma UpdateTicker_result:
  "fst (UpdateTicker v p cp a m) = Inr s \<Longrightarrow>
   Tickers (snd (UpdateTicker v p cp a m)) (Name p, cp, a) = Some s"
  by (auto simp: UpdateTicker_def Let_def ticker_GetTicker_def split: sum.splits option.splits)

lemma orderbook_hit:
  "Orderbooks m (Name p, cp, a) = Some b \<Longrightarrow> GetOrderbookEx v p cp a m = (Inr b, m)"
  by (simp add: GetOrderbookEx_def orderbook_GetOrderbook_def GetName_def)

lemma orderbook_miss:
  "Orderbooks m (Name p, cp, a) = None \<Longrightarrow>
   GetOrderbookEx v p cp a m = UpdateOrderbook v p cp a m"
  by (simp add: GetOrderbookEx_def orderbook_GetOrderbook_def GetName_def)

lemma UpdateOrderbook_requests: "requests (snd (UpdateOrderbook v p cp a m)) = Suc (requests m)"
  by (simp add: UpdateOrderbook_def Let_def requests_orderbook_loop case_prod_unfold
      split: sum.splits)

lemma UpdateOrderbook_error:
  "GetOrderbook v [] 1000 = Inl e \<Longrightarrow>
   UpdateOrderbook v p cp a m = (Inl e, m\<lparr>requests := Suc (requests m)\<rparr>)"
  by (simp add: UpdateOrderbook_def)

lemma UpdateOrderbook_result:
  "fst (UpdateOrderbook v p cp a m) = Inr b \<Longrightarrow>
   Orderbooks (snd (UpdateOrderbook v p cp a m)) (Name p, cp, a) = Some b"
  by (auto simp: UpdateOrderbook_def Let_def orderbook_GetOrderbook_def case_prod_unfold
      split: sum.splits option.splits)

text \<open>
  Claim C4. For every exchange, pair and asset type, on both the ticker path
  (\<open>GetTickerPrice\<close>) and the orderbook path (\<open>GetOrderbookEx\<close>): when the cache holds an
  entry for the key, that entry is returned and nothing else happens (no call to the
  venue, the store unchanged); when it holds none, the refresh function (\<open>UpdateTicker\<close>,
  \<open>UpdateOrderbook\<close>) is run, with exactly one call to the venue, and what it returns is
  returned as it is: the venue's error if the call failed, and otherwise a result that,
  when it is a snapshot, is the one now stored under the key.
\<close>

theorem get_or_refresh:
  "(Tickers m (Name p, cp, a) = Some s \<longrightarrow> GetTickerPrice v p cp a m = (Inr s, m))
   \<and> (Tickers m (Name p, cp, a) = None \<longrightarrow>
        GetTickerPrice v p cp a m = UpdateTicker v p cp a m
        \<and> requests (snd (GetTickerPrice v p cp a m)) = Suc (requests m)
        \<and> (\<forall>e. GetTicker v = Inl e \<longrightarrow> fst (GetTickerPrice v p cp a m) = Inl e)
        \<and> (\<forall>s'. fst (GetTickerPrice v p cp a m) = Inr s' \<longrightarrow>
              Tickers (snd (GetTickerPrice v p cp a m)) (Name p, cp, a) = Some s'))
   \<and> (Orderbooks m (Name p, cp, a) = Some b \<longrightarrow> GetOrderbookEx v p cp a m = (Inr b, m))
   \<and> (Orderbooks m (Name p, cp, a) = None \<longrightarrow>
        GetOrderbookEx v p cp a m = UpdateOrderbook v p cp a m
        \<and> requests (snd (GetOrderbookEx v p cp a m)) = Suc (requests m)
        \<and> (\<forall>e. GetOrderbook v [] 1000 = Inl e \<longrightarrow> fst (GetOrderbookEx v p cp a m) = Inl e)
        \<and> (\<forall>b'. fst (GetOrderbookEx v p cp a m) = Inr b' \<longrightarrow>
              Orderbooks (snd (GetOrderbookEx v p cp a m)) (Name p, cp, a) = Some b'))"
proof (intro conjI impI allI)
  assume miss: "Tickers m (Name p, cp, a) = None"
  show "GetTickerPrice v p cp a m = UpdateTicker v p cp a m"
    by (rule ticker_miss [OF miss])
  show "requests (snd (GetTickerPrice v p cp a m)) = Suc (requests m)"
    by (simp add: ticker_miss [OF miss] UpdateTicker_requests)
  show "fst (GetTickerPrice v p cp a m) = Inl e" if "GetTicker v = Inl e" for e
    by (simp add: ticker_miss [OF miss] UpdateTicker_error [OF that])
  show "Tickers (snd (GetTickerPrice v p cp a m)) (Name p, cp, a) = Some s'"
    if "fst (GetTickerPrice v p cp a m) = Inr s'" for s'
    using that by (simp add: ticker_miss [OF miss] UpdateTicker_result)
next
  assume miss: "Orderbooks m (Name p, cp, a) = None"
  show "GetOrderbookEx v p cp a m = UpdateOrderbook v p cp a m"
    by (rule orderbook_miss [OF miss])
  show "requests (snd (GetOrderbookEx v p cp a m)) = Suc (requests m)"
    by (simp add: orderbook_miss [OF miss] UpdateOrderbook_requests)
  show "fst (GetOrderbookEx v p cp a m) = Inl e" if "GetOrderbook v [] 1000 = Inl e" for e
    by (simp add: orderbook_miss [OF miss] UpdateOrderbook_error [OF that])
  show "Orderbooks (snd (GetOrderbookEx v p cp a m)) (Name p, cp, a) = Some b'"
    if "fst (GetOrderbookEx v p cp a m) = Inr b'" for b'
    using that by (simp add: orderbook_miss [OF miss] UpdateOrderbook_result)
qed (simp_all add: ticker_hit orderbook_hit)

lemma UpdateTicker_Tickers:
  "GetTicker v = Inr tick \<Longrightarrow>
   Tickers (snd (UpdateTicker v p cp a m)) k =
     (if fst k = Name p \<and> snd (snd k) = a \<and> fst (snd k) \<in> set (GetEnabledCurrencies v p)
      then Some (to_Price (fst (snd k))
                  (map_index tick (FormatExchangeCurrency v (Name p) (fst (snd k)))))
      else Tickers m k)"
  by (simp add: UpdateTicker_def Let_def Tickers_ticker_loop)

lemma UpdateTicker_lookup:
  "GetTicker v = Inr tick \<Longrightarrow>
   fst (UpdateTicker v p cp a m) =
     ticker_GetTicker (snd (UpdateTicker v p cp a m)) (Name p) cp a"
  by (simp add: UpdateTicker_def Let_def)

lemma UpdateOrderbook_Orderbooks:
  "GetOrderbook v [] 1000 = Inr ob \<Longrightarrow>
   Orderbooks (snd (UpdateOrderbook v p cp a m)) k =
     (if fst k = Name p \<and> snd (snd k) = a \<and> fst (snd k) \<in> set (GetEnabledCurrencies v p)
         \<and> Data ob (FormatExchangeCurrency v (Name p) (fst (snd k))) \<noteq> None
      then Some (to_Base (fst (snd k))
                  (the (Data ob (FormatExchangeCurrency v (Name p) (fst (snd k))))))
      else Orderbooks m k)"
  by (auto simp: UpdateOrderbook_def Let_def Orderbooks_orderbook_loop case_prod_unfold)

lemma UpdateOrderbook_lookup:
  "GetOrderbook v [] 1000 = Inr ob \<Longrightarrow>
   fst (UpdateOrderbook v p cp a m) =
     orderbook_GetOrderbook (snd (UpdateOrderbook v p cp a m)) (Name p) cp a"
  by (simp add: UpdateOrderbook_def Let_def case_prod_unfold)

lemma partial_GetTicker: "GetTicker partial_venue = Inr [''BTC_USD'' \<mapsto> btc_ticker]"
  by (simp add: partial_venue_def)

lemma partial_GetOrderbook:
  "GetOrderbook partial_venue [] 1000 = Inr \<lparr>Data = [''BTC_USD'' \<mapsto> btc_book]\<rparr>"
  by (simp add: partial_venue_def)

lemma partial_Tickers:
  "Tickers (snd (UpdateTicker partial_venue example_poloniex cp ''SPOT'' empty_market)) k =
     (if k = (''Poloniex'', btc_usd, ''SPOT'') then Some btc_price
      else if k = (''Poloniex'', eth_usd, ''SPOT'')
        then Some \<lparr>Price_Pair = eth_usd, Ask = 0, Bid = 0, High = 0, Last = 0, Low = 0,
                     Volume = 0\<rparr>
      else None)"
  unfolding UpdateTicker_Tickers [OF partial_GetTicker]
  by (cases k)
    (auto simp: partial_venue_def example_poloniex_def to_Price_def map_index_def
      underscore_format_def btc_usd_def eth_usd_def btc_ticker_def btc_price_def
      zero_Ticker_def empty_market_def)

lemma partial_Orderbooks:
  "Orderbooks (snd (UpdateOrderbook partial_venue example_poloniex cp ''SPOT'' empty_market)) k =
     (if k = (''Poloniex'', btc_usd, ''SPOT'') then Some btc_base else None)"
  unfolding UpdateOrderbook_Orderbooks [OF partial_GetOrderbook]
  by (cases k)
    (auto simp: partial_venue_def example_poloniex_def to_Base_def to_Item_def
      underscore_format_def btc_usd_def eth_usd_def btc_book_def btc_base_def
      empty_market_def)

lemma partial_ticker_refresh:
  "fst (UpdateTicker partial_venue example_poloniex btc_usd ''SPOT'' empty_market) = Inr btc_price"
  unfolding UpdateTicker_lookup [OF partial_GetTicker]
  by (simp add: ticker_GetTicker_def partial_Tickers) (simp add: example_poloniex_def)

lemma partial_orderbook_refresh:
  "fst (UpdateOrderbook partial_venue example_poloniex btc_usd ''SPOT'' empty_market) =
     Inr btc_base"
  unfolding UpdateOrderbook_lookup [OF partial_GetOrderbook]
  by (simp add: orderbook_GetOrderbook_def partial_Orderbooks) (simp add: example_poloniex_def)

theorem get_or_refresh_witness:
  "Tickers empty_market (Name example_poloniex, btc_usd, ''SPOT'') = None
   \<and> fst (GetTickerPrice partial_venue example_poloniex btc_usd ''SPOT'' empty_market) =
       Inr btc_price
   \<and> requests (snd (GetTickerPrice partial_venue example_poloniex btc_usd ''SPOT''
         empty_market)) = 1
   \<and> GetTickerPrice partial_venue example_poloniex btc_usd ''SPOT''
         (snd (GetTickerPrice partial_venue example_poloniex btc_usd ''SPOT'' empty_market)) =
       (Inr btc_price,
        snd (GetTickerPrice partial_venue example_poloniex btc_usd ''SPOT'' empty_market))
   \<and> Orderbooks empty_market (Name example_poloniex, btc_usd, ''SPOT'') = None
   \<and> fst (GetOrderbookEx partial_venue example_poloniex btc_usd ''SPOT'' empty_market) =
       Inr btc_base
   \<and> requests (snd (GetOrderbookEx partial_venue example_poloniex btc_usd ''SPOT''
         empty_market)) = 1
   \<and> GetOrderbookEx partial_venue example_poloniex btc_usd ''SPOT''
         (snd (GetOrderbookEx partial_venue example_poloniex btc_usd ''SPOT'' empty_market)) =
       (Inr btc_base,
        snd (GetOrderbookEx partial_venue example_poloniex btc_usd ''SPOT'' empty_market))"
proof -
  let ?t1 = "GetTickerPrice partial_venue example_poloniex btc_usd ''SPOT'' empty_market"
  let ?o1 = "GetOrderbookEx partial_venue example_poloniex btc_usd ''SPOT'' empty_market"
  have tmiss: "Tickers empty_market (Name example_poloniex, btc_usd, ''SPOT'') = None"
    and omiss: "Orderbooks empty_market (Name example_poloniex, btc_usd, ''SPOT'') = None"
    by (simp_all add: empty_market_def)
  note cold = get_or_refresh [of empty_market example_poloniex btc_usd "''SPOT''" btc_price
      partial_venue btc_base]
  from cold tmiss have t_eq: "?t1 =
      UpdateTicker partial_venue example_poloniex btc_usd ''SPOT'' empty_market"
    and t_req: "requests (snd ?t1) = Suc (requests empty_market)"
    and t_store: "\<forall>s'. fst ?t1 = Inr s' \<longrightarrow>
      Tickers (snd ?t1) (Name example_poloniex, btc_usd, ''SPOT'') = Some s'"
    by blast+
  from cold omiss have o_eq: "?o1 =
      UpdateOrderbook partial_venue example_poloniex btc_usd ''SPOT'' empty_market"
    and o_req: "requests (snd ?o1) = Suc (requests empty_market)"
    and o_store: "\<forall>b'. fst ?o1 = Inr b' \<longrightarrow>
      Orderbooks (snd ?o1) (Name example_poloniex, btc_usd, ''SPOT'') = Some b'"
    by blast+
  have t_res: "fst ?t1 = Inr btc_price"
    by (simp add: t_eq partial_ticker_refresh)
  have o_res: "fst ?o1 = Inr btc_base"
    by (simp add: o_eq partial_orderbook_refresh)
  from t_store t_res have t_in: "Tickers (snd ?t1) (Name example_poloniex, btc_usd, ''SPOT'') =
      Some btc_price"
    by blast
  from o_store o_res have o_in: "Orderbooks (snd ?o1) (Name example_poloniex, btc_usd, ''SPOT'') =
      Some btc_base"
    by blast
  note warm = get_or_refresh [of "snd ?t1" example_poloniex btc_usd "''SPOT''" btc_price
      partial_venue]
    get_or_refresh [of "snd ?o1" example_poloniex btc_usd "''SPOT''" _ partial_venue btc_base]
  from warm(1) t_in have t_hit: "GetTickerPrice partial_venue example_poloniex btc_usd ''SPOT''
      (snd ?t1) = (Inr btc_price, snd ?t1)"
    by blast
  from warm(2) o_in have o_hit: "GetOrderbookEx partial_venue example_poloniex btc_usd ''SPOT''
      (snd ?o1) = (Inr btc_base, snd ?o1)"
    by blast
  have "requests empty_market = 0"
    by (simp add: empty_market_def)
  with tmiss omiss t_res o_res t_req o_req t_hit o_hit show ?thesis
    by simp
qed

text \<open>
  Claim C6, as amended. In a batch refresh whose call to the venue succeeds, every enabled
  pair is handled by its own round of the loop, from its own entry of the response and
  under its own key: a pair the response covers gets the snapshot built from its entry
  installed, whatever the other entries are; on the orderbook path a pair absent from
  the response is skipped and its cached entry stays as it was; entries under any other
  key are untouched. Nothing is validated and no failure is reported per pair: the only
  outcome is the cache lookup of the requested pair after the loop. When the call to the
  venue fails, the error is returned and nothing is stored.
\<close>

theorem batch_refresh:
  "(GetTicker v = Inr tick \<longrightarrow>
      (\<forall>x \<in> set (GetEnabledCurrencies v p). \<forall>t.
          tick (FormatExchangeCurrency v (Name p) x) = Some t \<longrightarrow>
          Tickers (snd (UpdateTicker v p cp a m)) (Name p, x, a) = Some (to_Price x t))
      \<and> (\<forall>exch x a'. \<not> (exch = Name p \<and> a' = a \<and> x \<in> set (GetEnabledCurrencies v p)) \<longrightarrow>
            Tickers (snd (UpdateTicker v p cp a m)) (exch, x, a') = Tickers m (exch, x, a'))
      \<and> fst (UpdateTicker v p cp a m) =
          ticker_GetTicker (snd (UpdateTicker v p cp a m)) (Name p) cp a)
   \<and> (GetOrderbook v [] 1000 = Inr ob \<longrightarrow>
      (\<forall>x \<in> set (GetEnabledCurrencies v p). \<forall>d.
          Data ob (FormatExchangeCurrency v (Name p) x) = Some d \<longrightarrow>
          Orderbooks (snd (UpdateOrderbook v p cp a m)) (Name p, x, a) = Some (to_Base x d))
      \<and> (\<forall>x \<in> set (GetEnabledCurrencies v p).
          Data ob (FormatExchangeCurrency v (Name p) x) = None \<longrightarrow>
          Orderbooks (snd (UpdateOrderbook v p cp a m)) (Name p, x, a) =
            Orderbooks m (Name p, x, a))
      \<and> (\<forall>exch x a'. \<not> (exch = Name p \<and> a' = a \<and> x \<in> set (GetEnabledCurrencies v p)) \<longrightarrow>
            Orderbooks (snd (UpdateOrderbook v p cp a m)) (exch, x, a') =
              Orderbooks m (exch, x, a'))
      \<and> fst (UpdateOrderbook v p cp a m) =
          orderbook_GetOrderbook (snd (UpdateOrderbook v p cp a m)) (Name p) cp a)
   \<and> (\<forall>e. GetTicker v = Inl e \<longrightarrow>
        UpdateTicker v p cp a m = (Inl e, m\<lparr>requests := Suc (requests m)\<rparr>))
   \<and> (\<forall>e. GetOrderbook v [] 1000 = Inl e \<longrightarrow>
        UpdateOrderbook v p cp a m = (Inl e, m\<lparr>requests := Suc (requests m)\<rparr>))"
proof (intro conjI impI allI ballI)
  assume ok: "GetTicker v = Inr tick"
  show "Tickers (snd (UpdateTicker v p cp a m)) (Name p, x, a) = Some (to_Price x t)"
    if "x \<in> set (GetEnabledCurrencies v p)" "tick (FormatExchangeCurrency v (Name p) x) = Some t"
    for x t
    using that by (simp add: UpdateTicker_Tickers [OF ok] map_index_def)
  show "Tickers (snd (UpdateTicker v p cp a m)) (exch, x, a') = Tickers m (exch, x, a')"
    if "\<not> (exch = Name p \<and> a' = a \<and> x \<in> set (GetEnabledCurrencies v p))" for exch x a'
    using that by (auto simp: UpdateTicker_Tickers [OF ok])
  show "fst (UpdateTicker v p cp a m) =
      ticker_GetTicker (snd (UpdateTicker v p cp a m)) (Name p) cp a"
    by (rule UpdateTicker_lookup [OF ok])
next
  assume ok: "GetOrderbook v [] 1000 = Inr ob"
  show "Orderbooks (snd (UpdateOrderbook v p cp a m)) (Name p, x, a) = Some (to_Base x d)"
    if "x \<in> set (GetEnabledCurrencies v p)" "Data ob (FormatExchangeCurrency v (Name p) x) = Some d"
    for x d
    using that by (simp add: UpdateOrderbook_Orderbooks [OF ok])
  show "Orderbooks (snd (UpdateOrderbook v p cp a m)) (Name p, x, a) = Orderbooks m (Name p, x, a)"
    if "x \<in> set (GetEnabledCurrencies v p)" "Data ob (FormatExchangeCurrency v (Name p) x) = None"
    for x
    using that by (simp add: UpdateOrderbook_Orderbooks [OF ok])
  show "Orderbooks (snd (UpdateOrderbook v p cp a m)) (exch, x, a') = Orderbooks m (exch, x, a')"
    if "\<not> (exch = Name p \<and> a' = a \<and> x \<in> set (GetEnabledCurrencies v p))" for exch x a'
    using that by (auto simp: UpdateOrderbook_Orderbooks [OF ok])
  show "fst (UpdateOrderbook v p cp a m) =
      orderbook_GetOrderbook (snd (UpdateOrderbook v p cp a m)) (Name p) cp a"
    by (rule UpdateOrderbook_lookup [OF ok])
next
  show "UpdateTicker v p cp a m = (Inl e, m\<lparr>requests := Suc (requests m)\<rparr>)"
    if "GetTicker v = Inl e" for e
    by (rule UpdateTicker_error [OF that])
  show "UpdateOrderbook v p cp a m = (Inl e, m\<lparr>requests := Suc (requests m)\<rparr>)"
    if "GetOrderbook v [] 1000 = Inl e" for e
    by (rule UpdateOrderbook_error [OF that])
qed

text \<open>
  Claim C6 as stated fails on a batch that covers \<open>BTC_USD\<close> but not \<open>ETH_USD\<close>, both
  enabled: the refresh succeeds and reports no failure for \<open>ETH_USD\<close> on either path; on
  the ticker path an all-zero snapshot is installed for it, on the orderbook path nothing.
\<close>

theorem absent_pair_not_reported:
  "fst (UpdateTicker partial_venue example_poloniex btc_usd ''SPOT'' empty_market) = Inr btc_price
   \<and> Tickers (snd (UpdateTicker partial_venue example_poloniex btc_usd ''SPOT'' empty_market))
         (''Poloniex'', eth_usd, ''SPOT'') =
       Some \<lparr>Price_Pair = eth_usd, Ask = 0, Bid = 0, High = 0, Last = 0, Low = 0, Volume = 0\<rparr>
   \<and> fst (UpdateOrderbook partial_venue example_poloniex btc_usd ''SPOT'' empty_market) =
       Inr btc_base
   \<and> Orderbooks (snd (UpdateOrderbook partial_venue example_poloniex btc_usd ''SPOT''
         empty_market)) (''Poloniex'', eth_usd, ''SPOT'') = None"
  by (simp add: partial_ticker_refresh partial_orderbook_refresh partial_Tickers
      partial_Orderbooks) (simp add: btc_usd_def eth_usd_def)

theorem batch_refresh_witness:
  "GetTicker partial_venue = Inr [''BTC_USD'' \<mapsto> btc_ticker]
   \<and> btc_usd \<in> set (GetEnabledCurrencies partial_venue example_poloniex)
   \<and> Tickers (snd (UpdateTicker partial_venue example_poloniex eth_usd ''SPOT'' empty_market))
         (''Poloniex'', btc_usd, ''SPOT'') = Some btc_price
   \<and> Orderbooks (snd (UpdateOrderbook partial_venue example_poloniex eth_usd ''SPOT''
         empty_market)) (''Poloniex'', btc_usd, ''SPOT'') = Some btc_base
   \<and> Orderbooks (snd (UpdateOrderbook partial_venue example_poloniex eth_usd ''SPOT''
         empty_market)) (''Poloniex'', eth_usd, ''SPOT'') = None
   \<and> fst (UpdateOrderbook partial_venue example_poloniex eth_usd ''SPOT'' empty_market) =
       Inl Miss
   \<and> UpdateTicker silent_venue example_poloniex btc_usd ''SPOT'' empty_market =
       (Inl (errorString ''connection refused''), empty_market\<lparr>requests := 1\<rparr>)
   \<and> UpdateOrderbook silent_venue example_poloniex btc_usd ''SPOT'' empty_market =
       (Inl (errorString ''connection refused''), empty_market\<lparr>requests := 1\<rparr>)"
proof -
  have enabled: "GetEnabledCurrencies partial_venue example_poloniex = [btc_usd, eth_usd]"
    and fmt_btc: "\<And>n. FormatExchangeCurrency partial_venue n btc_usd = ''BTC_USD''"
    and fmt_eth: "\<And>n. FormatExchangeCurrency partial_venue n eth_usd = ''ETH_USD''"
    and name: "Name example_poloniex = ''Poloniex''"
    by (simp_all add: partial_venue_def underscore_format_def btc_usd_def eth_usd_def
        example_poloniex_def)
  have fails: "GetTicker silent_venue = Inl (errorString ''connection refused'')"
    "GetOrderbook silent_venue [] 1000 = Inl (errorString ''connection refused'')"
    by (simp_all add: silent_venue_def errors_New_def)
  have zero: "Suc (requests empty_market) = 1"
    by (simp add: empty_market_def)
  note live = batch_refresh [where v = partial_venue and p = example_poloniex
      and tick = "[''BTC_USD'' \<mapsto> btc_ticker]" and cp = eth_usd and a = "''SPOT''"
      and m = empty_market and ob = "\<lparr>Data = [''BTC_USD'' \<mapsto> btc_book]\<rparr>"]
  note dead = batch_refresh [where v = silent_venue and p = example_poloniex
      and cp = btc_usd and a = "''SPOT''" and m = empty_market]
  have t: "Tickers (snd (UpdateTicker partial_venue example_poloniex eth_usd ''SPOT''
      empty_market)) (''Poloniex'', btc_usd, ''SPOT'') = Some btc_price"
    using live
    by (simp add: partial_GetTicker enabled fmt_btc name to_Price_def btc_ticker_def
        btc_price_def)
  have o: "Orderbooks (snd (UpdateOrderbook partial_venue example_poloniex eth_usd ''SPOT''
      empty_market)) (''Poloniex'', btc_usd, ''SPOT'') = Some btc_base"
    using live
    by (simp add: partial_GetOrderbook enabled fmt_btc name to_Base_def to_Item_def
        btc_book_def btc_base_def)
  have o2: "Orderbooks (snd (UpdateOrderbook partial_venue example_poloniex eth_usd ''SPOT''
      empty_market)) (''Poloniex'', eth_usd, ''SPOT'') = None"
    using live
    by (simp add: partial_GetOrderbook enabled fmt_eth name) (simp add: empty_market_def)
  have o3: "fst (UpdateOrderbook partial_venue example_poloniex eth_usd ''SPOT'' empty_market) =
      Inl Miss"
    using live o2 by (simp add: partial_GetOrderbook orderbook_GetOrderbook_def name)
  have d1: "UpdateTicker silent_venue example_poloniex btc_usd ''SPOT'' empty_market =
      (Inl (errorString ''connection refused''), empty_market\<lparr>requests := 1\<rparr>)"
    using dead fails zero by simp
  have d2: "UpdateOrderbook silent_venue example_poloniex btc_usd ''SPOT'' empty_market =
      (Inl (errorString ''connection refused''), empty_market\<lparr>requests := 1\<rparr>)"
    using dead fails zero by simp
  show ?thesis
    using t o o2 o3 d1 d2 by (simp add: partial_GetTicker enabled)
qed

section \<open>Poloniex: operations without an implementation\<close>

text \<open>
  Claim C7, as amended. Every generic operation the wrapper does not implement returns,
  whatever its arguments, a failure made by \<open>errors.New\<close> with a fixed message: a plain
  error string, of the same type as every other failure, that a caller can recognise by
  its text only.
\<close>

theorem unsupported_operations:
  "GetExchangeFundTransferHistory p = Inl (errors_New ''not supported on exchange'')
   \<and> GetExchangeHistory p currencyPair assetType =
       Inl (errors_New ''trade history not yet implemented'')
   \<and> SubmitExchangeOrder p currencyPair side orderType amount price clientID =
       Inl (errors_New ''not yet implemented'')
   \<and> ModifyExchangeOrder p orderID action = Inl (errors_New ''not yet implemented'')
   \<and> CancelExchangeOrder p orderID = Some (errors_New ''not yet implemented'')
   \<and> CancelAllExchangeOrders p = Some (errors_New ''not yet implemented'')
   \<and> GetExchangeOrderInfo p orderID = Inl (errors_New ''not yet implemented'')
   \<and> GetExchangeDepositAddress p cryptocurrency = Inl (errors_New ''not yet implemented'')
   \<and> WithdrawCryptoExchangeFunds p address cryptocurrency amount =
       Inl (errors_New ''not yet implemented'')
   \<and> WithdrawFiatExchangeFunds p currency amount = Inl (errors_New ''not yet implemented'')
   \<and> WithdrawFiatExchangeFundsToInternationalBank p currency amount =
       Inl (errors_New ''not yet implemented'')"
  by (simp add: GetExchangeFundTransferHistory_def GetExchangeHistory_def
      SubmitExchangeOrder_def ModifyExchangeOrder_def CancelExchangeOrder_def
      CancelAllExchangeOrders_def GetExchangeOrderInfo_def GetExchangeDepositAddress_def
      WithdrawCryptoExchangeFunds_def WithdrawFiatExchangeFunds_def
      WithdrawFiatExchangeFundsToInternationalBank_def)

text \<open>
  Claim C7 as stated fails: the outcome of an unimplemented operation is the very value a
  live call yields when the venue fails with that message; no type sets them apart.
\<close>

theorem unsupported_same_as_venue_failure:
  "CancelExchangeOrder example_poloniex 42 = Some (errorString ''not yet implemented'')
   \<and> fst (UpdateTicker failing_venue example_poloniex btc_usd ''SPOT'' empty_market) =
       Inl (errorString ''not yet implemented'')"
  by (simp add: CancelExchangeOrder_def errors_New_def UpdateTicker_def failing_venue_def
      partial_venue_def)

end
